theory Spec2Isabelle
  imports Complex_Main
begin

section \<open>Data model\<close>

text \<open>
  Times are absolute instants, counted in minutes since 1970-01-01 00:00 UTC. A time zone
  only changes how an instant is displayed, so \<open>tz_localize\<close>/\<open>tz_convert\<close> leave the
  instants of an index alone. A table cell is a float or NaN; the floats are idealised as
  real numbers and NaN is \<open>None\<close>.
\<close>

type_synonym time = int
type_synonym cell = "real option"

text \<open>\<open>structure/protocols.py\<close>: the \<open>Location\<close> protocol.\<close>

record Location =
  name :: string
  latitude :: real
  longitude :: real
  altitude :: real
  timezone :: string

section \<open>ERA5 extractor: bounding box\<close>

text \<open>
  \<open>Era5DataExtractor.get_box_coordinates\<close> (\<open>api/extractor.py\<close>):
  \<^verbatim>\<open>box_coordinates = [self.location.latitude, self.location.longitude]
box_coordinates = box_coordinates + [x - 0.01 if x > 0 else x + 0.01 for x in box_coordinates]\<close>
\<close>

definition get_box_coordinates :: "Location \<Rightarrow> real list" where
  "get_box_coordinates loc =
     (let box_coordinates = [latitude loc, longitude loc]
      in box_coordinates @ map (\<lambda>x. if x > 0 then x - 0.01 else x + 0.01) box_coordinates)"

text \<open>The demo site of \<open>main.py\<close>.\<close>

definition get_demo_location :: Location where
  "get_demo_location =
     \<lparr>name = ''Demo_site'', latitude = 52.414, longitude = -1.143, altitude = 90.6,
      timezone = ''UTC''\<rparr>"

section \<open>Source selector\<close>

text \<open>
  \<open>structure/enums.py\<close>: \<open>WeatherDataSource\<close> is a \<open>StrEnum\<close> whose members are made
  by \<open>auto()\<close>, so the value of a member is its name in lower case.
\<close>

datatype WeatherDataSource = TMY | PVLIB_CLEARSKY | ERA5 | PVGISSARAH2


text \<open>
  The annotations ask for a member where a source is stored or passed, and Python does not
  check them: a source tag is a member of the enumeration, or a string that is not a
  member. A member of a \<open>StrEnum\<close> is a string: it hashes and compares as its value,
  which is the key a dictionary sees.
\<close>

datatype source_tag = Member WeatherDataSource | Plain string





section \<open>Tables\<close>

text \<open>
  The exceptions the modelled code raises. \<open>OutsideModel\<close> marks the one input
  region this development does not follow pandas into: a label alignment of two
  different indexes of which one repeats a label.
\<close>

datatype error =
  KeyError string
| ValueError
| TypeError
| AttributeError
| FileNotFoundError
| InvalidIndexError
| ClientError
| OutsideModel

text \<open>
  A \<open>pandas.DataFrame\<close> with a time index: the index name, the time zone of the index
  (\<open>None\<close> for a naive index), the index labels and the columns in order, each with one
  cell per index label.
\<close>

record dataframe =
  index_name :: "string option"
  index_tz :: "string option"
  index :: "time list"
  columns :: "(string \<times> cell list) list"

text \<open>\<open>pd.DataFrame(columns=cols)\<close>: no rows, a nameless naive index.\<close>

definition DataFrame_columns :: "string list \<Rightarrow> dataframe" where
  "DataFrame_columns cols =
     \<lparr>index_name = None, index_tz = None, index = [], columns = map (\<lambda>c. (c, [])) cols\<rparr>"

text \<open>\<open>dataf[c]\<close> raises \<open>KeyError\<close> for a column the table does not have.\<close>

definition getitem :: "dataframe \<Rightarrow> string \<Rightarrow> error + cell list" where
  "getitem dataf c =
     (case map_of (columns dataf) c of None \<Rightarrow> Inl (KeyError c) | Some vs \<Rightarrow> Inr vs)"

text \<open>
  \<open>dataf[c] = values\<close> for an array or a series on the same index: the lengths must
  agree (\<open>ValueError\<close> otherwise); an existing column is replaced where it stands, a
  new one is appended.
\<close>

fun replace_column :: "string \<Rightarrow> cell list \<Rightarrow> (string \<times> cell list) list \<Rightarrow> (string \<times> cell list) list" where
  "replace_column c vs [] = [(c, vs)]"
| "replace_column c vs ((d, ws) # cols) =
     (if d = c then (c, vs) # cols else (d, ws) # replace_column c vs cols)"

definition setitem :: "dataframe \<Rightarrow> string \<Rightarrow> cell list \<Rightarrow> error + dataframe" where
  "setitem dataf c vs =
     (if length vs \<noteq> length (index dataf) then Inl ValueError
      else Inr (dataf\<lparr>columns := replace_column c vs (columns dataf)\<rparr>))"

text \<open>\<open>dataf.columns = names\<close>: \<open>ValueError\<close> on a length mismatch.\<close>

definition set_columns :: "dataframe \<Rightarrow> string list \<Rightarrow> error + dataframe" where
  "set_columns dataf names =
     (if length names \<noteq> length (columns dataf) then Inl ValueError
      else Inr (dataf\<lparr>columns := zip names (map snd (columns dataf))\<rparr>))"

text \<open>Float arithmetic on cells: NaN propagates.\<close>

definition cell_sub :: "cell \<Rightarrow> cell \<Rightarrow> cell" where
  "cell_sub a b = (case (a, b) of (Some x, Some y) \<Rightarrow> Some (x - y) | _ \<Rightarrow> None)"

definition cell_add :: "cell \<Rightarrow> cell \<Rightarrow> cell" where
  "cell_add a b = (case (a, b) of (Some x, Some y) \<Rightarrow> Some (x + y) | _ \<Rightarrow> None)"

definition cell_mul :: "cell \<Rightarrow> cell \<Rightarrow> cell" where
  "cell_mul a b = (case (a, b) of (Some x, Some y) \<Rightarrow> Some (x * y) | _ \<Rightarrow> None)"

text \<open>\<open>dataf.shift()\<close>: every column moves down one row, the first row becomes NaN.\<close>

definition shift_column :: "cell list \<Rightarrow> cell list" where
  "shift_column vs = (if vs = [] then [] else None # butlast vs)"

definition shift :: "dataframe \<Rightarrow> dataframe" where
  "shift dataf = dataf\<lparr>columns := map (\<lambda>(c, vs). (c, shift_column vs)) (columns dataf)\<rparr>"

text \<open>
  \<open>a - b\<close> for two tables with the same index and the same columns (here always a
  table and its own shift), where the label alignment is the identity.
\<close>

definition sub_frames :: "dataframe \<Rightarrow> dataframe \<Rightarrow> dataframe" where
  "sub_frames a b =
     a\<lparr>columns := map2 (\<lambda>(c, vs) (d, ws). (c, map2 cell_sub vs ws)) (columns a) (columns b)\<rparr>"

text \<open>\<open>dataf.fillna(v, inplace=True)\<close>.\<close>

definition fillna :: "real \<Rightarrow> dataframe \<Rightarrow> dataframe" where
  "fillna v dataf =
     dataf\<lparr>columns :=
       map (\<lambda>(c, vs). (c, map (\<lambda>x. case x of None \<Rightarrow> Some v | Some y \<Rightarrow> Some y) vs))
         (columns dataf)\<rparr>"

text \<open>\<open>dataf[dataf < 0] = 0\<close>: a comparison with NaN is false, so NaN stays.\<close>

definition clip_negative :: "dataframe \<Rightarrow> dataframe" where
  "clip_negative dataf =
     dataf\<lparr>columns :=
       map (\<lambda>(c, vs). (c, map (\<lambda>x. case x of None \<Rightarrow> None
                                          | Some y \<Rightarrow> if y < 0 then Some 0 else Some y) vs))
         (columns dataf)\<rparr>"

section \<open>Reanalysis post-processor (\<open>api/functions.py\<close>)\<close>

text \<open>\<open>structure/enums.py\<close>: \<open>ExtractFile\<close> and its two properties.\<close>

datatype ExtractFile = TEMPERATURE | SOLARRADIATION

fun filename_key :: "ExtractFile \<Rightarrow> string" where
  "filename_key TEMPERATURE = ''2m_temperature''"
| "filename_key SOLARRADIATION = ''surface_net_solar_radiation''"

fun column_name :: "ExtractFile \<Rightarrow> string" where
  "column_name TEMPERATURE = ''t2m''"
| "column_name SOLARRADIATION = ''ssr''"

text \<open>\<open>structure/schema.py\<close>: \<open>WeatherDataSchema\<close>.\<close>

definition DATEINDEX :: string where "DATEINDEX = ''Time''"
definition SOLARIRRADIANCE :: string where "SOLARIRRADIANCE = ''Global irradiance (W/m2)''"
definition OAT :: string where "OAT = ''Air temperature (deg C)''"

text \<open>
  A NetCDF file as \<open>xr.open_dataset(path).to_dataframe().reset_index()\<close> shows it: the
  \<open>time\<close> column, the \<open>expver\<close> column when the file has one, and the data variables.
  The file system maps a path to the file stored there.
\<close>

record netcdf =
  nc_time :: "time list"
  nc_expver :: "int list option"
  nc_variables :: "(string \<times> cell list) list"

type_synonym path = string
type_synonym filesystem = "path \<rightharpoonup> netcdf"

text \<open>
  \<open>temp_dataf.loc[temp_dataf['expver'] == v, ['time', column]]\<close> with \<open>time\<close> made
  the index: the rows of one experiment version, as (time, value) pairs.
\<close>

definition expver_rows :: "time list \<Rightarrow> int list \<Rightarrow> cell list \<Rightarrow> int \<Rightarrow> (time \<times> cell) list" where
  "expver_rows ts expver vals v =
     map (\<lambda>(t, e, x). (t, x)) (filter (\<lambda>(t, e, x). e = v) (zip ts (zip expver vals)))"

text \<open>
  \<open>Index.union\<close> as the alignment of \<open>combine_first\<close> uses it: equal indexes are kept
  as they are, an empty side gives the other side, anything else is the sorted union.
\<close>

definition union_index :: "time list \<Rightarrow> time list \<Rightarrow> time list" where
  "union_index a b =
     (if a = b then a else if a = [] then b else if b = [] then a
      else sort (remdups (a @ b)))"

text \<open>The combiner of \<open>combine_first\<close>: the first value unless it is missing.\<close>

definition combiner :: "cell option \<Rightarrow> cell option \<Rightarrow> cell" where
  "combiner x y =
     (case x of Some (Some v) \<Rightarrow> Some v
      | _ \<Rightarrow> (case y of Some c \<Rightarrow> c | None \<Rightarrow> None))"

text \<open>
  \<open>df1.combine_first(df2)\<close> for two one-column tables with the same column: both are
  aligned on the union of their indexes, and each row takes the value of \<open>df1\<close> unless
  it is missing there. With equal indexes no alignment happens and the rows are
  combined in place.
\<close>

definition combine_first :: "(time \<times> cell) list \<Rightarrow> (time \<times> cell) list \<Rightarrow> error + (time \<times> cell) list" where
  "combine_first df1 df2 =
     (if map fst df1 = map fst df2
      then Inr (map2 (\<lambda>(t, x) (u, y). (t, combiner (Some x) (Some y))) df1 df2)
      else if \<not> distinct (map fst df1) \<or> \<not> distinct (map fst df2) then Inl OutsideModel
      else Inr (map (\<lambda>t. (t, combiner (map_of df1 t) (map_of df2 t)))
                  (union_index (map fst df1) (map fst df2))))"

text \<open>
  \<open>load_single_netcdf_file\<close>. The index of the result is named \<open>time\<close> and localised
  to UTC.
\<close>

definition load_single_netcdf_file :: "filesystem \<Rightarrow> path \<Rightarrow> ExtractFile \<Rightarrow> error + dataframe" where
  "load_single_netcdf_file fs path_netcdf_file target_variable =
     (case fs path_netcdf_file of
        None \<Rightarrow> Inl FileNotFoundError
      | Some temp_dataf \<Rightarrow>
          (case map_of (nc_variables temp_dataf) (column_name target_variable) of
             None \<Rightarrow> Inl (KeyError (column_name target_variable))
           | Some vals \<Rightarrow>
               (case nc_expver temp_dataf of
                  Some expver \<Rightarrow>
                    (let df1 = expver_rows (nc_time temp_dataf) expver vals 1;
                         df2 = expver_rows (nc_time temp_dataf) expver vals 5
                     in case combine_first df1 df2 of
                          Inl e \<Rightarrow> Inl e
                        | Inr rows \<Rightarrow>
                            Inr \<lparr>index_name = Some ''time'', index_tz = Some ''UTC'',
                                 index = map fst rows,
                                 columns = [(column_name target_variable, map snd rows)]\<rparr>)
                | None \<Rightarrow>
                    Inr \<lparr>index_name = Some ''time'', index_tz = Some ''UTC'',
                         index = nc_time temp_dataf,
                         columns = [(column_name target_variable, vals)]\<rparr>)))"

text \<open>
  \<open>apply_outputdataschema\<close>. \<open>ExtractFile\<close> has two members, so the branch that only
  prints is never taken.
\<close>

definition apply_outputdataschema :: "dataframe \<Rightarrow> ExtractFile \<Rightarrow> error + dataframe" where
  "apply_outputdataschema dataf target_variable =
     (case target_variable of
        TEMPERATURE \<Rightarrow> set_columns (dataf\<lparr>index_name := Some DATEINDEX\<rparr>) [OAT]
      | SOLARRADIATION \<Rightarrow> set_columns (dataf\<lparr>index_name := Some DATEINDEX\<rparr>) [SOLARIRRADIANCE])"

text \<open>\<open>series / d\<close> and \<open>series - d\<close> for a number \<open>d\<close>.\<close>

definition div_scalar :: "real \<Rightarrow> cell list \<Rightarrow> cell list" where
  "div_scalar d vs = map (map_option (\<lambda>x. x / d)) vs"

definition sub_scalar :: "real \<Rightarrow> cell list \<Rightarrow> cell list" where
  "sub_scalar d vs = map (map_option (\<lambda>x. x - d)) vs"

text \<open>\<open>get_radiation_data\<close>.\<close>

definition get_radiation_data :: "filesystem \<Rightarrow> path \<Rightarrow> error + dataframe" where
  "get_radiation_data fs path_netcdf_file =
     (let target_variable = SOLARRADIATION in
      if fs path_netcdf_file \<noteq> None then
        (case load_single_netcdf_file fs path_netcdf_file target_variable of
           Inl e \<Rightarrow> Inl e
         | Inr loaded \<Rightarrow>
             (let radiation_data = clip_negative (fillna 0 (sub_frames loaded (shift loaded)))
              in case getitem radiation_data (column_name target_variable) of
                   Inl e \<Rightarrow> Inl e
                 | Inr vs \<Rightarrow>
                     (case setitem radiation_data (column_name target_variable)
                             (div_scalar 3600 vs) of
                        Inl e \<Rightarrow> Inl e
                      | Inr radiation_data' \<Rightarrow>
                          apply_outputdataschema radiation_data' target_variable)))
      else apply_outputdataschema (DataFrame_columns [column_name target_variable])
             target_variable)"

text \<open>\<open>get_temperature_data\<close>.\<close>

definition get_temperature_data :: "filesystem \<Rightarrow> path \<Rightarrow> error + dataframe" where
  "get_temperature_data fs path_netcdf_file =
     (let target_variable = TEMPERATURE in
      if fs path_netcdf_file \<noteq> None then
        (case load_single_netcdf_file fs path_netcdf_file target_variable of
           Inl e \<Rightarrow> Inl e
         | Inr temperature_data \<Rightarrow>
             (case getitem temperature_data (column_name target_variable) of
                Inl e \<Rightarrow> Inl e
              | Inr vs \<Rightarrow>
                  (case setitem temperature_data (column_name target_variable)
                          (sub_scalar 273.15 vs) of
                     Inl e \<Rightarrow> Inl e
                   | Inr temperature_data' \<Rightarrow>
                       apply_outputdataschema temperature_data' target_variable)))
      else apply_outputdataschema (DataFrame_columns [column_name target_variable])
             target_variable)"

text \<open>
  The words of the specification for the radiation series: the first difference of
  consecutive samples, the first sample and every negative difference replaced by zero,
  then divided by 3600.
\<close>

definition spec_instantaneous_power :: "real list \<Rightarrow> real list" where
  "spec_instantaneous_power xs =
     map (\<lambda>i. (if i = 0 then 0
                else if xs ! i - xs ! (i - 1) < 0 then 0
                else xs ! i - xs ! (i - 1)) / 3600) [0..<length xs]"

text \<open>The column pipeline of \<open>get_radiation_data\<close> on one column, for the proofs.\<close>

definition radiation_column :: "cell list \<Rightarrow> cell list" where
  "radiation_column vs =
     div_scalar 3600
       (map (\<lambda>x. case x of None \<Rightarrow> None | Some y \<Rightarrow> if y < 0 then Some 0 else Some y)
          (map (\<lambda>x. case x of None \<Rightarrow> Some 0 | Some y \<Rightarrow> Some y)
             (map2 cell_sub vs (shift_column vs))))"

text \<open>\<open>dataf.loc[t, c]\<close> on a table with unique index labels.\<close>

definition value_at :: "dataframe \<Rightarrow> string \<Rightarrow> time \<Rightarrow> cell option" where
  "value_at dataf c t =
     (case map_of (columns dataf) c of
        None \<Rightarrow> None
      | Some vs \<Rightarrow> map_of (zip (index dataf) vs) t)"

text \<open>\<open>dataf[c].iloc[i]\<close>: the cell of column \<open>c\<close> in row \<open>i\<close>, if there is one.\<close>

definition iloc :: "dataframe \<Rightarrow> string \<Rightarrow> nat \<Rightarrow> cell option" where
  "iloc dataf c i =
     (case map_of (columns dataf) c of
        None \<Rightarrow> None
      | Some vs \<Rightarrow> if i < length vs then Some (vs ! i) else None)"

text \<open>Every column has one cell per index label.\<close>

definition well_formed :: "dataframe \<Rightarrow> bool" where
  "well_formed dataf = list_all (\<lambda>(c, vs). length vs = length (index dataf)) (columns dataf)"

text \<open>Two files for the concrete instances.\<close>

definition example_cumulative_file :: netcdf where
  "example_cumulative_file =
     \<lparr>nc_time = [0, 60, 120, 180], nc_expver = None,
      nc_variables = [(''ssr'', [Some 0, Some 3600, Some 7200, Some 10800])]\<rparr>"

definition example_expver_file :: netcdf where
  "example_expver_file =
     \<lparr>nc_time = [0, 0, 60, 60, 120, 120], nc_expver = Some [1, 5, 1, 5, 1, 5],
      nc_variables = [(''t2m'', [Some 280, Some 281, None, Some 283, None, None])]\<rparr>"

section \<open>Weather data (\<open>api/weather_api.py\<close>)\<close>

text \<open>\<open>structure/schema.py\<close>: \<open>POAWeatherDataSchema\<close>.\<close>

definition INDEX :: string where "INDEX = ''utc_time''"
definition POA_GLOBAL :: string where "POA_GLOBAL = ''poa_global''"
definition POA_DIFFUSE :: string where "POA_DIFFUSE = ''poa_diffuse''"
definition POA_DIRECT :: string where "POA_DIRECT = ''poa_direct''"
definition POA_SKY_DIFFUSE :: string where "POA_SKY_DIFFUSE = ''poa_sky_diffuse''"
definition POA_GROUND_DIFFUSE :: string where "POA_GROUND_DIFFUSE = ''poa_ground_diffuse''"
definition OUTDOOR_AIR_TEMPERATURE :: string where "OUTDOOR_AIR_TEMPERATURE = ''temp_air''"

record WeatherData =
  geolocation :: Location
  simulation_year :: int
  weather_data_source :: source_tag
  saving_path :: path

subsection \<open>Satellite-hourly formatter\<close>

text \<open>
  \<open>dataf[cols]\<close> raises \<open>KeyError\<close> at the first column that is missing.
\<close>

fun select_columns :: "dataframe \<Rightarrow> string list \<Rightarrow> error + cell list list" where
  "select_columns dataf [] = Inr []"
| "select_columns dataf (c # cs) =
     (case getitem dataf c of
        Inl e \<Rightarrow> Inl e
      | Inr vs \<Rightarrow> (case select_columns dataf cs of Inl e \<Rightarrow> Inl e | Inr vss \<Rightarrow> Inr (vs # vss)))"

text \<open>
  \<open>.sum(axis=1)\<close>: the row sums over the selected columns. pandas skips NaN by default
  (\<open>skipna=True\<close>), so a missing cell counts as zero and the sum is never NaN.
\<close>

definition nansum :: "cell list \<Rightarrow> cell" where
  "nansum cs = Some (sum_list (map (\<lambda>c. case c of None \<Rightarrow> 0 | Some x \<Rightarrow> x) cs))"

definition sum_axis1 :: "nat \<Rightarrow> cell list list \<Rightarrow> cell list" where
  "sum_axis1 n vss = map (\<lambda>i. nansum (map (\<lambda>vs. vs ! i) vss)) [0..<n]"

text \<open>\<open>index.tz_convert(tz)\<close> raises \<open>TypeError\<close> on a naive index.\<close>

definition tz_convert :: "string \<Rightarrow> dataframe \<Rightarrow> error + dataframe" where
  "tz_convert tz dataf =
     (if index_tz dataf = None then Inl TypeError else Inr (dataf\<lparr>index_tz := Some tz\<rparr>))"

definition format_sarah_weather_data :: "WeatherData \<Rightarrow> dataframe \<Rightarrow> error + dataframe" where
  "format_sarah_weather_data self dataf =
     (let poa_global_cols = [POA_DIRECT, POA_GROUND_DIFFUSE, POA_SKY_DIFFUSE];
          poa_diffuse_cols = [POA_GROUND_DIFFUSE, POA_SKY_DIFFUSE]
      in case select_columns dataf poa_global_cols of
           Inl e \<Rightarrow> Inl e
         | Inr g \<Rightarrow>
             (case setitem dataf POA_GLOBAL (sum_axis1 (length (index dataf)) g) of
                Inl e \<Rightarrow> Inl e
              | Inr dataf1 \<Rightarrow>
                  (case select_columns dataf1 poa_diffuse_cols of
                     Inl e \<Rightarrow> Inl e
                   | Inr d \<Rightarrow>
                       (case setitem dataf1 POA_DIFFUSE (sum_axis1 (length (index dataf1)) d) of
                          Inl e \<Rightarrow> Inl e
                        | Inr dataf2 \<Rightarrow>
                            tz_convert (timezone (geolocation self))
                              (dataf2\<lparr>index_name := Some INDEX\<rparr>)))))"

subsection \<open>Horizontal-to-POA derivation\<close>

text \<open>
  The pvlib functions are collaborators outside the repository. Each works row by row:
  the solar position and the relative airmass are functions of latitude, longitude and
  timestamp; \<open>irradiance.disc\<close> maps GHI, zenith and timestamp to (dni, kt, airmass);
  \<open>irradiance.get_total_irradiance\<close> maps surface tilt, surface azimuth, solar zenith,
  solar azimuth, DNI, GHI, DHI and airmass to (poa_global, poa_direct, poa_diffuse,
  poa_sky_diffuse, poa_ground_diffuse). Angles are in degrees.
\<close>

record solar_position =
  apparent_zenith :: real
  zenith :: real
  azimuth :: real

record pvlib =
  get_solarposition :: "real \<Rightarrow> real \<Rightarrow> time \<Rightarrow> solar_position"
  get_airmass :: "real \<Rightarrow> real \<Rightarrow> time \<Rightarrow> cell"
  disc :: "cell \<Rightarrow> real \<Rightarrow> time \<Rightarrow> cell \<times> cell \<times> cell"
  get_total_irradiance ::
    "real \<Rightarrow> real \<Rightarrow> real \<Rightarrow> real \<Rightarrow> cell \<Rightarrow> cell \<Rightarrow> cell \<Rightarrow> cell
      \<Rightarrow> cell \<times> cell \<times> cell \<times> cell \<times> cell"

definition convert_to_poa :: "pvlib \<Rightarrow> WeatherData \<Rightarrow> dataframe \<Rightarrow> error + dataframe" where
  "convert_to_poa pv self dataf =
     (let lat = latitude (geolocation self); lon = longitude (geolocation self) in
      case getitem dataf ''dni'' of Inl e \<Rightarrow> Inl e | Inr dni \<Rightarrow>
      case getitem dataf ''ghi'' of Inl e \<Rightarrow> Inl e | Inr ghi \<Rightarrow>
      case getitem dataf ''dhi'' of Inl e \<Rightarrow> Inl e | Inr dhi \<Rightarrow>
        (let total =
               map (\<lambda>i. let t = index dataf ! i; sp = get_solarposition pv lat lon t
                         in get_total_irradiance pv 0 180 (apparent_zenith sp) (azimuth sp)
                              (dni ! i) (ghi ! i) (dhi ! i) (get_airmass pv lat lon t))
                 [0..<length (index dataf)]
         in Inr \<lparr>index_name = index_name dataf, index_tz = index_tz dataf,
                 index = index dataf,
                 columns =
                   [(POA_GLOBAL, map (\<lambda>(a, b, c, d, e). a) total),
                    (POA_DIRECT, map (\<lambda>(a, b, c, d, e). b) total),
                    (POA_DIFFUSE, map (\<lambda>(a, b, c, d, e). c) total),
                    (POA_SKY_DIFFUSE, map (\<lambda>(a, b, c, d, e). d) total),
                    (POA_GROUND_DIFFUSE, map (\<lambda>(a, b, c, d, e). e) total)]\<rparr>))"

text \<open>
  The local table \<open>weather_data\<close> of \<open>add_solar_components_to_ghi_data\<close>, as it is
  handed to \<open>convert_to_poa\<close>: the columns of \<open>disc\<close>, then \<open>ghi\<close>, then
  \<^verbatim>\<open>weather_data['dhi'] = (weather_data['ghi'] -
    np.cos(solar_position['zenith'] * np.pi / 180) * weather_data['dni'])\<close>
\<close>

definition solar_components :: "pvlib \<Rightarrow> WeatherData \<Rightarrow> dataframe \<Rightarrow> error + dataframe" where
  "solar_components pv self ghi_data0 =
     (let lat = latitude (geolocation self); lon = longitude (geolocation self) in
      case set_columns ghi_data0 [''ghi''] of Inl e \<Rightarrow> Inl e | Inr ghi_data \<Rightarrow>
      case getitem ghi_data ''ghi'' of Inl e \<Rightarrow> Inl e | Inr ghi \<Rightarrow>
        (let n = length (index ghi_data);
             zen = map (\<lambda>t. zenith (get_solarposition pv lat lon t)) (index ghi_data);
             dni_data = map (\<lambda>i. disc pv (ghi ! i) (zen ! i) (index ghi_data ! i)) [0..<n];
             dni = map (\<lambda>(a, b, c). a) dni_data;
             weather_data =
               ghi_data\<lparr>columns :=
                 [(''dni'', dni),
                  (''kt'', map (\<lambda>(a, b, c). b) dni_data),
                  (''airmass'', map (\<lambda>(a, b, c). c) dni_data)] @ columns ghi_data\<rparr>
         in setitem weather_data ''dhi''
              (map (\<lambda>i. cell_sub (ghi ! i)
                           (cell_mul (Some (cos (zen ! i * pi / 180))) (dni ! i)))
                 [0..<n])))"

definition add_solar_components_to_ghi_data :: "pvlib \<Rightarrow> WeatherData \<Rightarrow> dataframe \<Rightarrow> error + dataframe" where
  "add_solar_components_to_ghi_data pv self ghi_data =
     (case solar_components pv self ghi_data of
        Inl e \<Rightarrow> Inl e
      | Inr weather_data \<Rightarrow> convert_to_poa pv self weather_data)"

text \<open>A table and a weather object for the concrete instances.\<close>

definition example_sarah_table :: dataframe where
  "example_sarah_table =
     \<lparr>index_name = Some ''time'', index_tz = Some ''UTC'', index = [0, 60],
      columns = [(POA_DIRECT, [Some 100, Some 0]),
                 (POA_SKY_DIFFUSE, [Some 50, Some 5]),
                 (POA_GROUND_DIFFUSE, [Some 2, None])]\<rparr>"

definition demo_weather :: WeatherData where
  "demo_weather =
     \<lparr>geolocation = get_demo_location, simulation_year = 2020, weather_data_source = Member ERA5,
      saving_path = ''data''\<rparr>"

text \<open>
  A stand-in for pvlib in the concrete instances: the sun stands at 60 degrees from the
  zenith, due south, \<open>disc\<close> finds two thirds of the GHI as DNI, and the transposition
  onto the horizontal plane is the closure itself.
\<close>

definition example_pvlib :: pvlib where
  "example_pvlib =
     \<lparr>get_solarposition = (\<lambda>lat lon t. \<lparr>apparent_zenith = 60, zenith = 60, azimuth = 180\<rparr>),
      get_airmass = (\<lambda>lat lon t. Some 2),
      disc = (\<lambda>ghi zen t. (map_option (\<lambda>g. 2 * g / 3) ghi, Some (1 / 2), Some 2)),
      get_total_irradiance =
        (\<lambda>tilt az zen saz dni ghi dhi am.
           (ghi, cell_sub ghi dhi, dhi, dhi, Some 0))\<rparr>"

definition example_ghi_table :: dataframe where
  "example_ghi_table =
     \<lparr>index_name = Some DATEINDEX, index_tz = Some ''UTC'', index = [720],
      columns = [(SOLARIRRADIANCE, [Some 300])]\<rparr>"

section \<open>ERA5 extractor (\<open>api/extractor.py\<close>)\<close>

text \<open>Python's \<open>f'{n}'\<close> and \<open>f'{x:02d}'\<close> of integers.\<close>

fun str_nat :: "nat \<Rightarrow> string" where
  "str_nat n =
     (if n < 10 then [''0123456789'' ! n]
      else str_nat (n div 10) @ [''0123456789'' ! (n mod 10)])"

declare str_nat.simps [simp del]

definition str_int :: "int \<Rightarrow> string" where
  "str_int i = (if i < 0 then ''-'' @ str_nat (nat (- i)) else str_nat (nat i))"

definition format_02d :: "nat \<Rightarrow> string" where
  "format_02d x = (if x < 10 then ''0'' @ str_nat x else str_nat x)"

text \<open>
  The request dictionary of \<open>download_data\<close>. \<open>cdsapi.Client.retrieve(name, request,
  target)\<close> downloads the result of the request into the file \<open>target\<close>, or raises and
  writes nothing. The client is modelled by what it downloads; writing the target file is
  the part of \<open>retrieve\<close> that the model of \<open>download_data\<close> carries out.
\<close>

record request =
  req_format :: string
  req_variable :: string
  req_year :: string
  req_month :: "string list"
  req_day :: "string list"
  req_time :: "string list"
  req_area :: "real list"

type_synonym client = "string \<Rightarrow> request \<Rightarrow> error + netcdf"

text \<open>
  The extractor. Its \<open>saving_path\<close> field is named \<open>netcdf_path\<close> here, since the
  \<open>saving_path\<close> of \<open>WeatherData\<close> has the name already.
\<close>

record Era5DataExtractor =
  location :: Location
  api_client :: "client option"
  netcdf_path :: path
  variables_to_extract :: "string list"

text \<open>
  The state the extractor works on: the NetCDF files on disk and the log of the
  \<open>retrieve\<close> calls made so far (data set, request, target). Directories are not
  tracked; \<open>mkdir(parents=True, exist_ok=True)\<close> changes no file.
\<close>

record world =
  files :: filesystem
  retrieved :: "(string \<times> request \<times> path) list"

definition create_saving_path :: "Era5DataExtractor \<Rightarrow> path option \<Rightarrow> Era5DataExtractor" where
  "create_saving_path self saving_path' =
     (let base = (case saving_path' of None \<Rightarrow> netcdf_path self | Some p \<Rightarrow> p)
      in self\<lparr>netcdf_path :=
           base @ ''/'' @ ''weather_data/'' @ name (location self) @ ''_netcdf_data''\<rparr>)"

text \<open>
  The constructor with \<open>__post_init__\<close>. The first argument is what
  \<open>create_api_client\<close> leaves in \<open>api_client\<close>: a client built from the environment, or
  nothing when building it fails with the \<open>AssertionError\<close> that is caught.
\<close>

definition new_Era5DataExtractor :: "client option \<Rightarrow> Location \<Rightarrow> client option \<Rightarrow> path \<Rightarrow> Era5DataExtractor" where
  "new_Era5DataExtractor environment_client loc given_client saving_path' =
     create_saving_path
       \<lparr>location = loc,
        api_client = (case given_client of None \<Rightarrow> environment_client | Some c \<Rightarrow> Some c),
        netcdf_path = saving_path',
        variables_to_extract = [filename_key SOLARRADIATION, filename_key TEMPERATURE]\<rparr>
       None"

definition netcdf_filename :: "Era5DataExtractor \<Rightarrow> string \<Rightarrow> int \<Rightarrow> string" where
  "netcdf_filename self variable year' =
     name (location self) @ ''_'' @ variable @ ''_'' @ str_int year' @ ''.nc''"

text \<open>\<open>self.saving_path / filename\<close>, the \<open>temp_full_path\<close> of \<open>download_data\<close>.\<close>

definition full_path :: "Era5DataExtractor \<Rightarrow> string \<Rightarrow> int \<Rightarrow> path" where
  "full_path self variable year' =
     netcdf_path self @ ''/'' @ netcdf_filename self variable year'"

definition get_variable_file_path :: "Era5DataExtractor \<Rightarrow> ExtractFile \<Rightarrow> int \<Rightarrow> path" where
  "get_variable_file_path self variable year' =
     full_path self (filename_key variable) year'"

definition all_monhts :: "string list" where
  "all_monhts = map format_02d [1..<13]"

definition download_request :: "Era5DataExtractor \<Rightarrow> string \<Rightarrow> int \<Rightarrow> string list \<Rightarrow> request" where
  "download_request self variable year' months =
     \<lparr>req_format = ''netcdf'', req_variable = variable, req_year = str_int year',
      req_month = months,
      req_day = map format_02d [1..<32],
      req_time = map (\<lambda>h. format_02d h @ '':00'') [0..<24],
      req_area = get_box_coordinates (location self)\<rparr>"

text \<open>
  The loop of \<open>download_data\<close> over \<open>variables_to_extract\<close>. A missing client fails at
  \<open>self.api_client.retrieve\<close> with \<open>AttributeError\<close>; an exception of the client ends
  the loop.
\<close>

fun download_loop :: "Era5DataExtractor \<Rightarrow> int \<Rightarrow> string list \<Rightarrow> string list \<Rightarrow> world \<Rightarrow> error + world" where
  "download_loop self year' months [] w = Inr w"
| "download_loop self year' months (variable # rest) w =
     (let temp_full_path = full_path self variable year' in
      if files w temp_full_path = None then
        (case api_client self of
           None \<Rightarrow> Inl AttributeError
         | Some c \<Rightarrow>
             (case c ''reanalysis-era5-land'' (download_request self variable year' months) of
                Inl e \<Rightarrow> Inl e
              | Inr downloaded \<Rightarrow>
                  download_loop self year' months rest
                    \<lparr>files = (files w)(temp_full_path \<mapsto> downloaded),
                     retrieved = retrieved w @
                       [(''reanalysis-era5-land'',
                         download_request self variable year' months, temp_full_path)]\<rparr>))
      else download_loop self year' months rest w)"

definition download_data :: "Era5DataExtractor \<Rightarrow> int \<Rightarrow> string list option \<Rightarrow> world \<Rightarrow> error + world" where
  "download_data self year' months w =
     download_loop self year'
       (case months of None \<Rightarrow> all_monhts | Some ms \<Rightarrow> ms)
       (variables_to_extract self) w"

definition get_ghi_data :: "Era5DataExtractor \<Rightarrow> int \<Rightarrow> filesystem \<Rightarrow> error + dataframe" where
  "get_ghi_data self sim_year fs =
     get_radiation_data fs (get_variable_file_path self SOLARRADIATION sim_year)"

text \<open>\<open>Era5DataExtractor.get_temperature_data\<close>.\<close>

definition extractor_get_temperature_data :: "Era5DataExtractor \<Rightarrow> int \<Rightarrow> filesystem \<Rightarrow> error + dataframe" where
  "extractor_get_temperature_data self sim_year fs =
     get_temperature_data fs (get_variable_file_path self TEMPERATURE sim_year)"

text \<open>The number of \<open>retrieve\<close> calls logged for one target file.\<close>

definition retrieve_calls :: "world \<Rightarrow> path \<Rightarrow> nat" where
  "retrieve_calls w p = length (filter (\<lambda>(ds, req, target). target = p) (retrieved w))"

section \<open>Reanalysis acquisition (\<open>WeatherData.get_weather_data_from_era5\<close>)\<close>

text \<open>\<open>dataf.values.flatten()\<close>: the cells row by row.\<close>

definition values_flatten :: "dataframe \<Rightarrow> cell list" where
  "values_flatten dataf =
     concat (map (\<lambda>i. map (\<lambda>(c, vs). vs ! i) (columns dataf)) [0..<length (index dataf)])"

text \<open>
  \<open>dataf.loc[:, c] = array\<close>. For a column the table does not have yet, pandas hands the
  assignment to \<open>dataf[c] = array\<close>. That raises \<open>ValueError\<close> when the table has rows
  and the array has another length. When the table has no rows and the array is not
  empty, pandas first gives the table the index of the array (\<open>RangeIndex\<close>: the labels
  0, 1, ...; \<open>DataFrame._ensure_valid_index\<close>), filling the other columns with NaN, and
  the assignment succeeds.
\<close>

definition loc_setitem_column :: "dataframe \<Rightarrow> string \<Rightarrow> cell list \<Rightarrow> error + dataframe" where
  "loc_setitem_column dataf c vs =
     (if map_of (columns dataf) c = None \<and> index dataf = [] \<and> vs \<noteq> [] then
        Inr \<lparr>index_name = index_name dataf, index_tz = None,
             index = map int [0..<length vs],
             columns = map (\<lambda>(d, ws). (d, replicate (length vs) None)) (columns dataf)
                       @ [(c, vs)]\<rparr>
      else setitem dataf c vs)"

text \<open>
  The tables of \<open>get_weather_data_from_era5\<close> before the temperature is attached: the
  radiation-derived table \<open>weather_data\<close>, the table \<open>temperature_data\<close> and the state
  after the download.
\<close>

definition era5_tables :: "client option \<Rightarrow> pvlib \<Rightarrow> WeatherData \<Rightarrow> world \<Rightarrow> error + dataframe \<times> dataframe \<times> world" where
  "era5_tables environment_client pv self w =
     (let site_era5_extractor =
            new_Era5DataExtractor environment_client (geolocation self) None (saving_path self)
      in case download_data site_era5_extractor (simulation_year self) None w of
           Inl e \<Rightarrow> Inl e
         | Inr w' \<Rightarrow>
      case get_ghi_data site_era5_extractor (simulation_year self) (files w') of
           Inl e \<Rightarrow> Inl e
         | Inr ghi_data \<Rightarrow>
      case add_solar_components_to_ghi_data pv self ghi_data of
           Inl e \<Rightarrow> Inl e
         | Inr weather_data \<Rightarrow>
      case extractor_get_temperature_data site_era5_extractor (simulation_year self) (files w') of
           Inl e \<Rightarrow> Inl e
         | Inr temperature_data \<Rightarrow> Inr (weather_data, temperature_data, w'))"

definition get_weather_data_from_era5 :: "client option \<Rightarrow> pvlib \<Rightarrow> WeatherData \<Rightarrow> world \<Rightarrow> error + dataframe \<times> world" where
  "get_weather_data_from_era5 environment_client pv self w =
     (case era5_tables environment_client pv self w of
        Inl e \<Rightarrow> Inl e
      | Inr (weather_data, temperature_data, w') \<Rightarrow>
          (case loc_setitem_column weather_data OUTDOOR_AIR_TEMPERATURE
                  (values_flatten temperature_data) of
             Inl e \<Rightarrow> Inl e
           | Inr weather_data' \<Rightarrow> Inr (weather_data', w')))"

section \<open>Calendar normaliser (\<open>WeatherData.weather_data_processing\<close>)\<close>















subsection \<open>Reference collaborators\<close>














section \<open>Concrete files, clients and states\<close>

definition example_one_radiation_file :: netcdf where
  "example_one_radiation_file =
     \<lparr>nc_time = [0], nc_expver = None, nc_variables = [(''ssr'', [Some 5])]\<rparr>"

definition example_no_radiation_file :: netcdf where
  "example_no_radiation_file =
     \<lparr>nc_time = [], nc_expver = None, nc_variables = [(''ssr'', [])]\<rparr>"

definition example_one_temperature_file :: netcdf where
  "example_one_temperature_file =
     \<lparr>nc_time = [0], nc_expver = None, nc_variables = [(''t2m'', [Some 283.15])]\<rparr>"

definition example_two_temperature_file :: netcdf where
  "example_two_temperature_file =
     \<lparr>nc_time = [0, 60], nc_expver = None,
      nc_variables = [(''t2m'', [Some 273.15, Some 283.15])]\<rparr>"

definition example_client :: client where
  "example_client dataset req =
     Inr (if req_variable req = filename_key TEMPERATURE then example_one_temperature_file
          else example_one_radiation_file)"

definition demo_path :: "ExtractFile \<Rightarrow> path" where
  "demo_path variable =
     ''data/weather_data/Demo_site_netcdf_data/Demo_site_'' @ filename_key variable @ ''_2020.nc''"

definition demo_world :: "netcdf \<Rightarrow> netcdf \<Rightarrow> world" where
  "demo_world radiation temperature =
     \<lparr>files = [demo_path SOLARRADIATION \<mapsto> radiation, demo_path TEMPERATURE \<mapsto> temperature],
      retrieved = []\<rparr>"

definition example_weather_table :: "time list \<Rightarrow> cell list \<Rightarrow> dataframe" where
  "example_weather_table ts zeros =
     \<lparr>index_name = Some DATEINDEX, index_tz = Some ''UTC'', index = ts,
      columns = [(POA_GLOBAL, zeros), (POA_DIRECT, zeros), (POA_DIFFUSE, zeros),
                 (POA_SKY_DIFFUSE, zeros), (POA_GROUND_DIFFUSE, zeros)]\<rparr>"

definition example_temperature_table :: "time list \<Rightarrow> cell list \<Rightarrow> dataframe" where
  "example_temperature_table ts vs =
     \<lparr>index_name = Some DATEINDEX, index_tz = Some ''UTC'', index = ts,
      columns = [(OAT, vs)]\<rparr>"

definition demo_extractor :: Era5DataExtractor where
  "demo_extractor = new_Era5DataExtractor (Some example_client) get_demo_location None ''data''"

definition empty_world :: world where
  "empty_world = \<lparr>files = Map.empty, retrieved = []\<rparr>"

definition downloaded_world :: world where
  "downloaded_world =
     \<lparr>files = [demo_path SOLARRADIATION \<mapsto> example_one_radiation_file,
               demo_path TEMPERATURE \<mapsto> example_one_temperature_file],
      retrieved =
        [(''reanalysis-era5-land'',
          download_request demo_extractor (filename_key SOLARRADIATION) 2020 all_monhts,
          demo_path SOLARRADIATION),
         (''reanalysis-era5-land'',
          download_request demo_extractor (filename_key TEMPERATURE) 2020 all_monhts,
          demo_path TEMPERATURE)]\<rparr>"

section \<open>Theorems\<close>

subsection \<open>Bounding box\<close>

lemma get_box_coordinates_eq:
  "get_box_coordinates loc =
     [latitude loc, longitude loc,
      (if latitude loc > 0 then latitude loc - 0.01 else latitude loc + 0.01),
      (if longitude loc > 0 then longitude loc - 0.01 else longitude loc + 0.01)]"
  by (simp add: get_box_coordinates_def Let_def)

text \<open>
  C8 (as amended). The box is \<open>[lat, lon, f lat, f lon]\<close> with \<open>f x = x - 0.01\<close> for
  \<open>x > 0\<close> and \<open>f x = x + 0.01\<close> otherwise. The offset always points against the sign
  of the coordinate: a positive coordinate is lowered by 0.01 (towards zero), a
  non-positive one is raised by 0.01.
\<close>

theorem get_box_coordinates_buffer:
  "get_box_coordinates loc =
     [latitude loc, longitude loc,
      (if latitude loc > 0 then latitude loc - 0.01 else latitude loc + 0.01),
      (if longitude loc > 0 then longitude loc - 0.01 else longitude loc + 0.01)]
   \<and> (latitude loc > 0 \<longrightarrow> get_box_coordinates loc ! 2 = latitude loc - 0.01
        \<and> get_box_coordinates loc ! 2 < latitude loc)
   \<and> (latitude loc \<le> 0 \<longrightarrow> get_box_coordinates loc ! 2 = latitude loc + 0.01
        \<and> get_box_coordinates loc ! 2 > latitude loc)
   \<and> (longitude loc > 0 \<longrightarrow> get_box_coordinates loc ! 3 = longitude loc - 0.01
        \<and> get_box_coordinates loc ! 3 < longitude loc)
   \<and> (longitude loc \<le> 0 \<longrightarrow> get_box_coordinates loc ! 3 = longitude loc + 0.01
        \<and> get_box_coordinates loc ! 3 > longitude loc)"
  by (simp add: get_box_coordinates_eq numeral_3_eq_3 numeral_2_eq_2)

text \<open>The demo site has a positive latitude and a negative longitude.\<close>

theorem get_box_coordinates_buffer_witness:
  "latitude get_demo_location > 0 \<and> longitude get_demo_location \<le> 0
   \<and> get_box_coordinates get_demo_location = [52.414, -1.143, 52.404, -1.133]
   \<and> get_box_coordinates get_demo_location ! 2 < latitude get_demo_location
   \<and> get_box_coordinates get_demo_location ! 3 > longitude get_demo_location"
  using get_box_coordinates_buffer [of get_demo_location]
  by (simp add: get_demo_location_def)

text \<open>
  C8 as stated says that the box grows where the coordinate is positive, that is that
  the buffered value lies farther from zero than the coordinate. At the demo site's
  latitude 52.414 the buffered value is 52.404, nearer to zero.
\<close>

theorem get_box_coordinates_grows_counterexample:
  "\<not> (latitude get_demo_location > 0 \<longrightarrow>
        \<bar>get_box_coordinates get_demo_location ! 2\<bar> > \<bar>latitude get_demo_location\<bar>)"
  by (simp add: get_box_coordinates_eq get_demo_location_def numeral_2_eq_2)

subsection \<open>Reanalysis post-processor\<close>

lemma set_union_index: "set (union_index a b) = set a \<union> set b"
  by (auto simp: union_index_def)

lemma distinct_union_index: "distinct a \<Longrightarrow> distinct b \<Longrightarrow> distinct (union_index a b)"
  by (simp add: union_index_def)

lemma combine_equal_index:
  assumes "map fst df1 = map fst df2" and "distinct (map fst df1)"
  shows "map2 (\<lambda>(t, x) (u, y). (t, combiner (Some x) (Some y))) df1 df2 =
         map (\<lambda>t. (t, combiner (map_of df1 t) (map_of df2 t))) (map fst df1)"
proof (rule nth_equalityI)
  have len: "length df1 = length df2"
    using assms(1) by (metis length_map)
  show "length (map2 (\<lambda>(t, x) (u, y). (t, combiner (Some x) (Some y))) df1 df2) =
        length (map (\<lambda>t. (t, combiner (map_of df1 t) (map_of df2 t))) (map fst df1))"
    using len by simp
  fix i assume "i < length (map2 (\<lambda>(t, x) (u, y). (t, combiner (Some x) (Some y))) df1 df2)"
  then have i: "i < length df1" "i < length df2" using len by simp_all
  have f: "fst (df1 ! i) = fst (df2 ! i)"
    using assms(1) i by (metis nth_map)
  have m1: "map_of df1 (fst (df1 ! i)) = Some (snd (df1 ! i))"
    using assms(2) i by (simp add: map_of_eq_Some_iff)
  have "distinct (map fst df2)" using assms by simp
  then have m2: "map_of df2 (fst (df2 ! i)) = Some (snd (df2 ! i))"
    using i by (simp add: map_of_eq_Some_iff)
  show "map2 (\<lambda>(t, x) (u, y). (t, combiner (Some x) (Some y))) df1 df2 ! i =
        map (\<lambda>t. (t, combiner (map_of df1 t) (map_of df2 t))) (map fst df1) ! i"
    using i f m1 m2 by (simp add: case_prod_beta)
qed

lemma combine_first_distinct:
  assumes "distinct (map fst df1)" and "distinct (map fst df2)"
  shows "combine_first df1 df2 =
         Inr (map (\<lambda>t. (t, combiner (map_of df1 t) (map_of df2 t)))
                (union_index (map fst df1) (map fst df2)))"
proof (cases "map fst df1 = map fst df2")
  case True
  then show ?thesis
    using combine_equal_index [OF True assms(1)]
    by (simp add: combine_first_def union_index_def)
next
  case False
  then show ?thesis using assms by (simp add: combine_first_def)
qed

lemma load_expver:
  assumes "fs p = Some nc" and "nc_expver nc = Some expver"
    and "map_of (nc_variables nc) (column_name tv) = Some vals"
    and "distinct (map fst (expver_rows (nc_time nc) expver vals 1))"
    and "distinct (map fst (expver_rows (nc_time nc) expver vals 5))"
  shows "load_single_netcdf_file fs p tv =
     Inr \<lparr>index_name = Some ''time'', index_tz = Some ''UTC'',
          index = union_index (map fst (expver_rows (nc_time nc) expver vals 1))
                    (map fst (expver_rows (nc_time nc) expver vals 5)),
          columns = [(column_name tv,
             map (\<lambda>t. combiner (map_of (expver_rows (nc_time nc) expver vals 1) t)
                                 (map_of (expver_rows (nc_time nc) expver vals 5) t))
               (union_index (map fst (expver_rows (nc_time nc) expver vals 1))
                    (map fst (expver_rows (nc_time nc) expver vals 5))))]\<rparr>"
  using assms
  by (simp add: load_single_netcdf_file_def Let_def combine_first_distinct comp_def)

text \<open>
  C3. For a file with an \<open>expver\<close> column whose two versions (1 and 5) each list a
  timestamp at most once, the loaded table has exactly the timestamps of the two
  versions, each once; wherever version 1 has a value, the table has that value, and
  wherever version 1 has no row or a missing value, the table has the value of version 5
  (missing if version 5 has none either).
\<close>

theorem load_single_netcdf_file_prefers_first_version:
  assumes "fs p = Some nc" and "nc_expver nc = Some expver"
    and "map_of (nc_variables nc) (column_name tv) = Some vals"
    and "distinct (map fst (expver_rows (nc_time nc) expver vals 1))"
    and "distinct (map fst (expver_rows (nc_time nc) expver vals 5))"
  shows "\<exists>out. load_single_netcdf_file fs p tv = Inr out
     \<and> set (index out) = fst ` set (expver_rows (nc_time nc) expver vals 1)
                         \<union> fst ` set (expver_rows (nc_time nc) expver vals 5)
     \<and> distinct (index out)
     \<and> (\<forall>t v. map_of (expver_rows (nc_time nc) expver vals 1) t = Some (Some v) \<longrightarrow>
            value_at out (column_name tv) t = Some (Some v))
     \<and> (\<forall>t \<in> set (index out).
            (map_of (expver_rows (nc_time nc) expver vals 1) t = None
             \<or> map_of (expver_rows (nc_time nc) expver vals 1) t = Some None) \<longrightarrow>
            value_at out (column_name tv) t =
              Some (case map_of (expver_rows (nc_time nc) expver vals 5) t of
                      None \<Rightarrow> None | Some c \<Rightarrow> c))"
proof -
  let ?d1 = "expver_rows (nc_time nc) expver vals 1"
  let ?d2 = "expver_rows (nc_time nc) expver vals 5"
  let ?idx = "union_index (map fst ?d1) (map fst ?d2)"
  let ?out = "\<lparr>index_name = Some ''time'', index_tz = Some ''UTC'', index = ?idx,
          columns = [(column_name tv, map (\<lambda>t. combiner (map_of ?d1 t) (map_of ?d2 t)) ?idx)]\<rparr>"
  have l: "load_single_netcdf_file fs p tv = Inr ?out"
    using assms by (rule load_expver)
  have v: "value_at ?out (column_name tv) t =
        (if t \<in> set ?idx then Some (combiner (map_of ?d1 t) (map_of ?d2 t)) else None)" for t
    by (simp add: value_at_def map_of_zip_map)
  have s: "set ?idx = fst ` set ?d1 \<union> fst ` set ?d2"
    by (simp add: set_union_index)
  have d: "distinct ?idx"
    using assms(4,5) by (rule distinct_union_index)
  have a: "value_at ?out (column_name tv) t = Some (Some x)"
    if "map_of ?d1 t = Some (Some x)" for t x
  proof -
    have "(t, Some x) \<in> set ?d1" using that by (rule map_of_SomeD)
    then have "t \<in> fst ` set ?d1" by force
    then have "t \<in> set ?idx" using s by blast
    then have "value_at ?out (column_name tv) t = Some (combiner (map_of ?d1 t) (map_of ?d2 t))"
      by (simp only: v if_True)
    then show ?thesis using that by (simp add: combiner_def)
  qed
  have b: "value_at ?out (column_name tv) t =
        Some (case map_of ?d2 t of None \<Rightarrow> None | Some c \<Rightarrow> c)"
    if "t \<in> set ?idx" "map_of ?d1 t = None \<or> map_of ?d1 t = Some None" for t
  proof -
    have "value_at ?out (column_name tv) t = Some (combiner (map_of ?d1 t) (map_of ?d2 t))"
      using that(1) by (simp only: v if_True)
    then show ?thesis using that(2) by (auto simp: combiner_def)
  qed
  show ?thesis
    apply (rule exI [of _ ?out])
    using l s d a b by (simp del: set_map)
qed

lemma shift_column_nth:
  "i < length vs \<Longrightarrow> shift_column vs ! i = (if i = 0 then None else vs ! (i - 1))"
  by (cases i) (auto simp: shift_column_def nth_butlast)

lemma length_shift_column: "length (shift_column vs) = length vs"
  by (simp add: shift_column_def)

lemma radiation_column_Some:
  "radiation_column (map Some xs) = map Some (spec_instantaneous_power xs)"
proof (rule nth_equalityI)
  show "length (radiation_column (map Some xs)) = length (map Some (spec_instantaneous_power xs))"
    by (simp add: radiation_column_def div_scalar_def spec_instantaneous_power_def
        length_shift_column)
next
  fix i assume "i < length (radiation_column (map Some xs))"
  then have i: "i < length xs"
    by (simp add: radiation_column_def div_scalar_def length_shift_column)
  then show "radiation_column (map Some xs) ! i = map Some (spec_instantaneous_power xs) ! i"
    by (simp add: radiation_column_def div_scalar_def spec_instantaneous_power_def
        shift_column_nth cell_sub_def length_shift_column)
qed

lemma get_radiation_data_loaded:
  assumes "load_single_netcdf_file fs p SOLARRADIATION = Inr loaded"
    and "columns loaded = [(''ssr'', vs)]"
    and "length (index loaded) = length vs"
  shows "get_radiation_data fs p =
     Inr \<lparr>index_name = Some DATEINDEX, index_tz = index_tz loaded, index = index loaded,
          columns = [(SOLARIRRADIANCE, radiation_column vs)]\<rparr>"
proof -
  have "fs p \<noteq> None"
    using assms(1) by (auto simp: load_single_netcdf_file_def split: option.splits)
  then show ?thesis
    using assms
    by (simp add: get_radiation_data_def Let_def shift_def sub_frames_def fillna_def
        clip_negative_def getitem_def setitem_def apply_outputdataschema_def set_columns_def
        radiation_column_def div_scalar_def length_shift_column)
qed

text \<open>
  A difference next to a missing sample is missing, and \<open>fillna(0)\<close> makes it zero
  like the first one.
\<close>

lemma radiation_column_missing_sample:
  "radiation_column [Some 0, None, Some 7200] = [Some 0, Some 0, Some 0]"
  by (simp add: radiation_column_def div_scalar_def shift_column_def cell_sub_def)

text \<open>
  C2. Whenever the loaded radiation table holds the samples \<open>xs\<close>, the table returned
  by \<open>get_radiation_data\<close> holds the first differences of consecutive samples, with the
  first sample and every negative difference replaced by zero, divided by 3600; and the
  file with the samples 0, 3600, 7200, 10800 gives 0, 1, 1, 1.
\<close>

theorem get_radiation_data_first_difference:
  assumes "load_single_netcdf_file fs p SOLARRADIATION = Inr loaded"
    and "columns loaded = [(''ssr'', map Some xs)]"
    and "length (index loaded) = length xs"
  shows "get_radiation_data fs p =
     Inr \<lparr>index_name = Some DATEINDEX, index_tz = index_tz loaded, index = index loaded,
          columns = [(SOLARIRRADIANCE, map Some (spec_instantaneous_power xs))]\<rparr>
   \<and> get_radiation_data (Map.empty(''site_ssr_2020.nc'' \<mapsto> example_cumulative_file))
        ''site_ssr_2020.nc'' =
     Inr \<lparr>index_name = Some DATEINDEX, index_tz = Some ''UTC'', index = [0, 60, 120, 180],
          columns = [(SOLARIRRADIANCE, [Some 0, Some 1, Some 1, Some 1])]\<rparr>"
proof
  show "get_radiation_data fs p =
     Inr \<lparr>index_name = Some DATEINDEX, index_tz = index_tz loaded, index = index loaded,
          columns = [(SOLARIRRADIANCE, map Some (spec_instantaneous_power xs))]\<rparr>"
    using get_radiation_data_loaded [OF assms(1,2)] assms(3)
    by (simp add: radiation_column_Some)
next
  have l: "load_single_netcdf_file (Map.empty(''site_ssr_2020.nc'' \<mapsto> example_cumulative_file))
        ''site_ssr_2020.nc'' SOLARRADIATION =
      Inr \<lparr>index_name = Some ''time'', index_tz = Some ''UTC'', index = [0, 60, 120, 180],
           columns = [(''ssr'', [Some 0, Some 3600, Some 7200, Some 10800])]\<rparr>"
    by (simp add: load_single_netcdf_file_def example_cumulative_file_def)
  show "get_radiation_data (Map.empty(''site_ssr_2020.nc'' \<mapsto> example_cumulative_file))
        ''site_ssr_2020.nc'' =
     Inr \<lparr>index_name = Some DATEINDEX, index_tz = Some ''UTC'', index = [0, 60, 120, 180],
          columns = [(SOLARIRRADIANCE, [Some 0, Some 1, Some 1, Some 1])]\<rparr>"
    using get_radiation_data_loaded [OF l]
    by (simp add: radiation_column_def div_scalar_def shift_column_def cell_sub_def)
qed

text \<open>The monotone series of the specification, through the theorem.\<close>

theorem get_radiation_data_first_difference_witness:
  "load_single_netcdf_file (Map.empty(''f.nc'' \<mapsto> example_cumulative_file)) ''f.nc'' SOLARRADIATION =
      Inr \<lparr>index_name = Some ''time'', index_tz = Some ''UTC'', index = [0, 60, 120, 180],
           columns = [(''ssr'', map Some [0, 3600, 7200, 10800])]\<rparr>
   \<and> get_radiation_data (Map.empty(''f.nc'' \<mapsto> example_cumulative_file)) ''f.nc'' =
     Inr \<lparr>index_name = Some DATEINDEX, index_tz = Some ''UTC'', index = [0, 60, 120, 180],
          columns = [(SOLARIRRADIANCE, map Some (spec_instantaneous_power [0, 3600, 7200, 10800]))]\<rparr>
   \<and> spec_instantaneous_power [0, 3600, 7200, 10800] = [0, 1, 1, 1]"
proof -
  have l: "load_single_netcdf_file (Map.empty(''f.nc'' \<mapsto> example_cumulative_file)) ''f.nc'' SOLARRADIATION =
      Inr \<lparr>index_name = Some ''time'', index_tz = Some ''UTC'', index = [0, 60, 120, 180],
           columns = [(''ssr'', map Some [0, 3600, 7200, 10800])]\<rparr>"
    by (simp add: load_single_netcdf_file_def example_cumulative_file_def)
  have s: "spec_instantaneous_power [0, 3600, 7200, 10800] = [0, 1, 1, 1]"
    by (simp add: spec_instantaneous_power_def upt_rec [of 0] upt_rec [of 1] upt_rec [of 2] upt_rec [of 3] numeral_2_eq_2 numeral_3_eq_3)
  show ?thesis
    using l s get_radiation_data_first_difference [OF l, of "[0, 3600, 7200, 10800]"] by simp
qed

text \<open>
  C6. For a path with no file, \<open>get_radiation_data\<close> and \<open>get_temperature_data\<close>
  return, without an exception, a table with no rows and the single column of the output
  schema.
\<close>

theorem missing_file_gives_empty_table: "fs p = None \<Longrightarrow>
   get_radiation_data fs p =
     Inr \<lparr>index_name = Some DATEINDEX, index_tz = None, index = [],
          columns = [(SOLARIRRADIANCE, [])]\<rparr>
   \<and> get_temperature_data fs p =
     Inr \<lparr>index_name = Some DATEINDEX, index_tz = None, index = [],
          columns = [(OAT, [])]\<rparr>"
  by (simp add: get_radiation_data_def get_temperature_data_def apply_outputdataschema_def
      DataFrame_columns_def set_columns_def)

text \<open>The empty file system has no file at any path.\<close>

theorem missing_file_gives_empty_table_witness:
  "(Map.empty :: filesystem) ''absent.nc'' = None
   \<and> get_radiation_data Map.empty ''absent.nc'' =
     Inr \<lparr>index_name = Some ''Time'', index_tz = None, index = [],
          columns = [(''Global irradiance (W/m2)'', [])]\<rparr>
   \<and> get_temperature_data Map.empty ''absent.nc'' =
     Inr \<lparr>index_name = Some ''Time'', index_tz = None, index = [],
          columns = [(''Air temperature (deg C)'', [])]\<rparr>"
  using missing_file_gives_empty_table [of Map.empty "''absent.nc''"]
  by (simp add: DATEINDEX_def SOLARIRRADIANCE_def OAT_def)

text \<open>
  A file with three timestamps: version 1 has a value at the first only, version 5 at
  the first and the second.
\<close>

theorem load_single_netcdf_file_prefers_first_version_witness:
  "load_single_netcdf_file (Map.empty(''f.nc'' \<mapsto> example_expver_file)) ''f.nc'' TEMPERATURE =
     Inr \<lparr>index_name = Some ''time'', index_tz = Some ''UTC'', index = [0, 60, 120],
          columns = [(''t2m'', [Some 280, Some 283, None])]\<rparr>
   \<and> value_at \<lparr>index_name = Some ''time'', index_tz = Some ''UTC'', index = [0, 60, 120],
          columns = [(''t2m'', [Some 280, Some 283, None])]\<rparr> ''t2m'' 0 = Some (Some 280)
   \<and> value_at \<lparr>index_name = Some ''time'', index_tz = Some ''UTC'', index = [0, 60, 120],
          columns = [(''t2m'', [Some 280, Some 283, None])]\<rparr> ''t2m'' 60 = Some (Some 283)"
proof -
  let ?fs = "Map.empty(''f.nc'' \<mapsto> example_expver_file)"
  have r1: "expver_rows (nc_time example_expver_file) [1, 5, 1, 5, 1, 5]
        [Some 280, Some 281, None, Some 283, None, None] 1 = [(0, Some 280), (60, None), (120, None)]"
    by (simp add: expver_rows_def example_expver_file_def)
  have r5: "expver_rows (nc_time example_expver_file) [1, 5, 1, 5, 1, 5]
        [Some 280, Some 281, None, Some 283, None, None] 5 = [(0, Some 281), (60, Some 283), (120, None)]"
    by (simp add: expver_rows_def example_expver_file_def)
  have l: "load_single_netcdf_file ?fs ''f.nc'' TEMPERATURE =
     Inr \<lparr>index_name = Some ''time'', index_tz = Some ''UTC'', index = [0, 60, 120],
          columns = [(''t2m'', [Some 280, Some 283, None])]\<rparr>"
    by (simp add: load_single_netcdf_file_def Let_def combine_first_def combiner_def
        expver_rows_def example_expver_file_def)
  from load_single_netcdf_file_prefers_first_version [of ?fs "''f.nc''" example_expver_file "[1, 5, 1, 5, 1, 5]" TEMPERATURE
        "[Some 280, Some 281, None, Some 283, None, None]"]
  obtain out where o: "load_single_netcdf_file ?fs ''f.nc'' TEMPERATURE = Inr out"
    and a: "\<forall>t v. map_of (expver_rows (nc_time example_expver_file) [1, 5, 1, 5, 1, 5]
        [Some 280, Some 281, None, Some 283, None, None] 1) t = Some (Some v) \<longrightarrow>
            value_at out (column_name TEMPERATURE) t = Some (Some v)"
    and b: "\<forall>t \<in> set (index out).
            (map_of (expver_rows (nc_time example_expver_file) [1, 5, 1, 5, 1, 5]
        [Some 280, Some 281, None, Some 283, None, None] 1) t = None
             \<or> map_of (expver_rows (nc_time example_expver_file) [1, 5, 1, 5, 1, 5]
        [Some 280, Some 281, None, Some 283, None, None] 1) t = Some None) \<longrightarrow>
            value_at out (column_name TEMPERATURE) t =
              Some (case map_of (expver_rows (nc_time example_expver_file) [1, 5, 1, 5, 1, 5]
        [Some 280, Some 281, None, Some 283, None, None] 5) t of
                      None \<Rightarrow> None | Some c \<Rightarrow> c)"
    unfolding r1 r5 by (auto simp: example_expver_file_def)
  have out: "out = \<lparr>index_name = Some ''time'', index_tz = Some ''UTC'', index = [0, 60, 120],
          columns = [(''t2m'', [Some 280, Some 283, None])]\<rparr>"
    using o l by simp
  have "value_at out ''t2m'' 0 = Some (Some 280)"
    using a [unfolded r1] by simp
  moreover have "value_at out ''t2m'' 60 = Some (Some 283)"
    using b [unfolded r1 r5] by (simp add: out)
  ultimately show ?thesis using l out by simp
qed

subsection \<open>Satellite-hourly formatter and irradiance derivation\<close>

lemma map_of_replace_column_same: "map_of (replace_column c vs cols) c = Some vs"
  by (induction cols) auto

lemma map_of_replace_column_other:
  "d \<noteq> c \<Longrightarrow> map_of (replace_column c vs cols) d = map_of cols d"
  by (induction cols) auto

lemma poa_names_distinct:
  "POA_GLOBAL \<noteq> POA_DIRECT" "POA_GLOBAL \<noteq> POA_GROUND_DIFFUSE" "POA_GLOBAL \<noteq> POA_SKY_DIFFUSE"
  "POA_DIFFUSE \<noteq> POA_DIRECT" "POA_DIFFUSE \<noteq> POA_GROUND_DIFFUSE" "POA_DIFFUSE \<noteq> POA_SKY_DIFFUSE"
  "POA_DIFFUSE \<noteq> POA_GLOBAL"
  by (simp_all add: POA_GLOBAL_def POA_DIRECT_def POA_GROUND_DIFFUSE_def POA_SKY_DIFFUSE_def
      POA_DIFFUSE_def)

lemma format_sarah_columns:
  assumes "format_sarah_weather_data self dataf = Inr out"
  shows "\<exists>d g s. map_of (columns dataf) POA_DIRECT = Some d
     \<and> map_of (columns dataf) POA_GROUND_DIFFUSE = Some g
     \<and> map_of (columns dataf) POA_SKY_DIFFUSE = Some s
     \<and> index out = index dataf
     \<and> map_of (columns out) POA_DIRECT = Some d
     \<and> map_of (columns out) POA_GROUND_DIFFUSE = Some g
     \<and> map_of (columns out) POA_SKY_DIFFUSE = Some s
     \<and> map_of (columns out) POA_GLOBAL = Some (sum_axis1 (length (index dataf)) [d, g, s])
     \<and> map_of (columns out) POA_DIFFUSE = Some (sum_axis1 (length (index dataf)) [g, s])"
  using assms poa_names_distinct
  by (auto simp: format_sarah_weather_data_def Let_def getitem_def setitem_def tz_convert_def
      map_of_replace_column_same map_of_replace_column_other
      split: option.splits if_splits sum.splits)

text \<open>
  C5. In every row of the table returned by \<open>format_sarah_weather_data\<close> whose
  \<open>poa_direct\<close>, \<open>poa_ground_diffuse\<close> and \<open>poa_sky_diffuse\<close> are numbers,
  \<open>poa_global\<close> is their sum and \<open>poa_diffuse\<close> is the sum of the two diffuse
  components, exactly.
\<close>

theorem format_sarah_poa_sums:
  assumes "format_sarah_weather_data self dataf = Inr out"
    and "iloc out POA_DIRECT i = Some (Some d)"
    and "iloc out POA_GROUND_DIFFUSE i = Some (Some g)"
    and "iloc out POA_SKY_DIFFUSE i = Some (Some s)"
    and "i < length (index out)"
  shows "iloc out POA_GLOBAL i = Some (Some (d + g + s))
       \<and> iloc out POA_DIFFUSE i = Some (Some (g + s))"
proof -
  from format_sarah_columns [OF assms(1)] obtain dc gc sc where
    o: "index out = index dataf"
      "map_of (columns out) POA_DIRECT = Some dc"
      "map_of (columns out) POA_GROUND_DIFFUSE = Some gc"
      "map_of (columns out) POA_SKY_DIFFUSE = Some sc"
      "map_of (columns out) POA_GLOBAL = Some (sum_axis1 (length (index dataf)) [dc, gc, sc])"
      "map_of (columns out) POA_DIFFUSE = Some (sum_axis1 (length (index dataf)) [gc, sc])"
    by blast
  have i: "i < length (index dataf)" using assms(5) o(1) by simp
  have d: "dc ! i = Some d" using assms(2) o(2) by (simp add: iloc_def split: if_splits)
  have g: "gc ! i = Some g" using assms(3) o(3) by (simp add: iloc_def split: if_splits)
  have s: "sc ! i = Some s" using assms(4) o(4) by (simp add: iloc_def split: if_splits)
  show ?thesis
    using i d g s o(5,6) by (simp add: iloc_def sum_axis1_def nansum_def)
qed

text \<open>
  A table of two rows. In the second row the ground-diffuse cell is missing: the row
  sums skip it.
\<close>

lemma format_sarah_example:
  "format_sarah_weather_data demo_weather example_sarah_table =
     Inr \<lparr>index_name = Some INDEX, index_tz = Some ''UTC'', index = [0, 60],
          columns = [(POA_DIRECT, [Some 100, Some 0]),
                     (POA_SKY_DIFFUSE, [Some 50, Some 5]),
                     (POA_GROUND_DIFFUSE, [Some 2, None]),
                     (POA_GLOBAL, [Some 152, Some 5]),
                     (POA_DIFFUSE, [Some 52, Some 5])]\<rparr>"
  by (simp add: format_sarah_weather_data_def example_sarah_table_def demo_weather_def
      get_demo_location_def Let_def getitem_def setitem_def tz_convert_def sum_axis1_def
      nansum_def upt_rec [of 0] upt_rec [of 1] numeral_2_eq_2
      POA_GLOBAL_def POA_DIRECT_def POA_GROUND_DIFFUSE_def POA_SKY_DIFFUSE_def POA_DIFFUSE_def)

text \<open>The first row of the example, through the theorem.\<close>

theorem format_sarah_poa_sums_witness:
  "format_sarah_weather_data demo_weather example_sarah_table =
     Inr \<lparr>index_name = Some INDEX, index_tz = Some ''UTC'', index = [0, 60],
          columns = [(POA_DIRECT, [Some 100, Some 0]),
                     (POA_SKY_DIFFUSE, [Some 50, Some 5]),
                     (POA_GROUND_DIFFUSE, [Some 2, None]),
                     (POA_GLOBAL, [Some 152, Some 5]),
                     (POA_DIFFUSE, [Some 52, Some 5])]\<rparr>
   \<and> iloc \<lparr>index_name = Some INDEX, index_tz = Some ''UTC'', index = [0, 60],
          columns = [(POA_DIRECT, [Some 100, Some 0]),
                     (POA_SKY_DIFFUSE, [Some 50, Some 5]),
                     (POA_GROUND_DIFFUSE, [Some 2, None]),
                     (POA_GLOBAL, [Some 152, Some 5]),
                     (POA_DIFFUSE, [Some 52, Some 5])]\<rparr> POA_GLOBAL 0 = Some (Some (100 + 2 + 50))
   \<and> iloc \<lparr>index_name = Some INDEX, index_tz = Some ''UTC'', index = [0, 60],
          columns = [(POA_DIRECT, [Some 100, Some 0]),
                     (POA_SKY_DIFFUSE, [Some 50, Some 5]),
                     (POA_GROUND_DIFFUSE, [Some 2, None]),
                     (POA_GLOBAL, [Some 152, Some 5]),
                     (POA_DIFFUSE, [Some 52, Some 5])]\<rparr> POA_DIFFUSE 0 = Some (Some (2 + 50))"
  using format_sarah_poa_sums [OF format_sarah_example, of 0 100 2 50] format_sarah_example
  by (simp add: iloc_def POA_GLOBAL_def POA_DIRECT_def POA_GROUND_DIFFUSE_def
      POA_SKY_DIFFUSE_def POA_DIFFUSE_def)

text \<open>
  In every row of the table that \<open>add_solar_components_to_ghi_data\<close> derives and hands
  to the transposition, where GHI and DNI are numbers, the diffuse-horizontal irradiance is
  \<open>GHI - DNI * cos (zenith * pi / 180)\<close>, the zenith of the solar position being in
  degrees.
\<close>


lemma solar_components_row:
  assumes "solar_components pv self ghi_data = Inr weather_data"
    and "iloc weather_data ''ghi'' i = Some (Some g)"
    and "iloc weather_data ''dni'' i = Some (Some n)"
    and "i < length (index weather_data)"
  shows "add_solar_components_to_ghi_data pv self ghi_data = convert_to_poa pv self weather_data
     \<and> iloc weather_data ''dhi'' i =
         Some (Some (g - n * cos (zenith (get_solarposition pv (latitude (geolocation self))
             (longitude (geolocation self)) (index weather_data ! i)) * pi / 180)))
     \<and> (\<exists>h. iloc weather_data ''dhi'' i = Some (Some h)
           \<and> g = n * cos (zenith (get_solarposition pv (latitude (geolocation self))
             (longitude (geolocation self)) (index weather_data ! i)) * pi / 180) + h)"
proof -
  obtain c vs where c: "columns ghi_data = [(c, vs)]"
    using assms(1)
    by (cases "columns ghi_data"; cases "tl (columns ghi_data)")
      (auto simp: solar_components_def set_columns_def Let_def)
  let ?lat = "latitude (geolocation self)" and ?lon = "longitude (geolocation self)"
  let ?n = "length (index ghi_data)"
  let ?zen = "map (\<lambda>t. zenith (get_solarposition pv ?lat ?lon t)) (index ghi_data)"
  let ?dd = "map (\<lambda>i. disc pv (vs ! i) (?zen ! i) (index ghi_data ! i)) [0..<?n]"
  let ?dni = "map (\<lambda>(a, b, c). a) ?dd"
  let ?dhi = "map (\<lambda>i. cell_sub (vs ! i) (cell_mul (Some (cos (?zen ! i * pi / 180))) (?dni ! i)))
                 [0..<?n]"
  have w: "weather_data = ghi_data\<lparr>columns :=
      replace_column ''dhi'' ?dhi
        ([(''dni'', ?dni), (''kt'', map (\<lambda>(a, b, c). b) ?dd),
          (''airmass'', map (\<lambda>(a, b, c). c) ?dd)] @ [(''ghi'', vs)])\<rparr>"
    using assms(1) c
    by (simp add: solar_components_def set_columns_def Let_def getitem_def setitem_def)
  have idx: "index weather_data = index ghi_data" using w by simp
  have i: "i < ?n" using assms(4) idx by simp
  have g: "vs ! i = Some g" using assms(2) w by (simp add: iloc_def split: if_splits)
  have n: "?dni ! i = Some n" using assms(3) w i by (simp add: iloc_def split: if_splits)
  have h: "iloc weather_data ''dhi'' i = Some (?dhi ! i)"
    using w i by (simp add: iloc_def)
  have "?dhi ! i = Some (g - n * cos (zenith (get_solarposition pv ?lat ?lon (index ghi_data ! i)) * pi / 180))"
    using i g n by (simp add: cell_sub_def cell_mul_def mult.commute)
  then have d: "iloc weather_data ''dhi'' i =
      Some (Some (g - n * cos (zenith (get_solarposition pv ?lat ?lon (index weather_data ! i)) * pi / 180)))"
    using h idx by simp
  have a: "add_solar_components_to_ghi_data pv self ghi_data = convert_to_poa pv self weather_data"
    using assms(1) by (simp add: add_solar_components_to_ghi_data_def)
  show ?thesis using a d by simp
qed

text \<open>One row at noon with a GHI of 300: the stand-in finds a DNI of 200 and the sun at 60 degrees.\<close>

lemma solar_components_example:
  "solar_components example_pvlib demo_weather example_ghi_table =
     Inr \<lparr>index_name = Some DATEINDEX, index_tz = Some ''UTC'', index = [720],
          columns = [(''dni'', [Some 200]), (''kt'', [Some (1 / 2)]), (''airmass'', [Some 2]),
                     (''ghi'', [Some 300]), (''dhi'', [Some 200])]\<rparr>"
  by (simp add: solar_components_def example_pvlib_def demo_weather_def example_ghi_table_def
      set_columns_def getitem_def setitem_def Let_def cell_sub_def cell_mul_def cos_60)

text \<open>
  The table \<open>convert_to_poa\<close> returns is made of the five plane-of-array columns of
  \<open>get_total_irradiance\<close>; it has no \<open>ghi\<close>, \<open>dni\<close> or \<open>dhi\<close> column.
\<close>

lemma convert_to_poa_columns:
  assumes "convert_to_poa pv self d = Inr out"
  shows "map fst (columns out) =
           [POA_GLOBAL, POA_DIRECT, POA_DIFFUSE, POA_SKY_DIFFUSE, POA_GROUND_DIFFUSE]
       \<and> getitem out ''ghi'' = Inl (KeyError ''ghi'')
       \<and> getitem out ''dni'' = Inl (KeyError ''dni'')
       \<and> getitem out ''dhi'' = Inl (KeyError ''dhi'')"
  using assms
  by (auto simp: convert_to_poa_def Let_def getitem_def POA_GLOBAL_def POA_DIRECT_def
      POA_DIFFUSE_def POA_SKY_DIFFUSE_def POA_GROUND_DIFFUSE_def split: sum.splits)

text \<open>
  C4 (as amended). In every row of the table that \<open>add_solar_components_to_ghi_data\<close>
  derives and hands to \<open>convert_to_poa\<close>, where GHI and DNI are numbers, the derived
  diffuse-horizontal irradiance is \<open>GHI - DNI * cos (zenith * pi / 180)\<close>, the zenith of
  the solar position being in degrees, so that \<open>GHI = DNI * cos (zenith * pi / 180) + DHI\<close>.
  The table the function returns is what \<open>convert_to_poa\<close> makes of that derived table:
  its columns are the five plane-of-array columns, and it has no \<open>ghi\<close>, \<open>dni\<close> or
  \<open>dhi\<close> column, so the decomposition cannot be read off a row of the returned table.
\<close>

theorem solar_components_closure:
  "(solar_components pv self ghi_data = Inr weather_data
      \<and> iloc weather_data ''ghi'' i = Some (Some g)
      \<and> iloc weather_data ''dni'' i = Some (Some n)
      \<and> i < length (index weather_data) \<longrightarrow>
        add_solar_components_to_ghi_data pv self ghi_data = convert_to_poa pv self weather_data
        \<and> iloc weather_data ''dhi'' i =
            Some (Some (g - n * cos (zenith (get_solarposition pv (latitude (geolocation self))
                (longitude (geolocation self)) (index weather_data ! i)) * pi / 180)))
        \<and> (\<exists>h. iloc weather_data ''dhi'' i = Some (Some h)
              \<and> g = n * cos (zenith (get_solarposition pv (latitude (geolocation self))
                (longitude (geolocation self)) (index weather_data ! i)) * pi / 180) + h))
   \<and> (add_solar_components_to_ghi_data pv self ghi_data = Inr out \<longrightarrow>
        (\<exists>derived. solar_components pv self ghi_data = Inr derived
            \<and> convert_to_poa pv self derived = Inr out)
        \<and> map fst (columns out) =
            [POA_GLOBAL, POA_DIRECT, POA_DIFFUSE, POA_SKY_DIFFUSE, POA_GROUND_DIFFUSE]
        \<and> getitem out ''ghi'' = Inl (KeyError ''ghi'')
        \<and> getitem out ''dni'' = Inl (KeyError ''dni'')
        \<and> getitem out ''dhi'' = Inl (KeyError ''dhi''))"
proof (intro conjI impI)
  assume h: "solar_components pv self ghi_data = Inr weather_data
      \<and> iloc weather_data ''ghi'' i = Some (Some g)
      \<and> iloc weather_data ''dni'' i = Some (Some n)
      \<and> i < length (index weather_data)"
  then have r: "add_solar_components_to_ghi_data pv self ghi_data = convert_to_poa pv self weather_data
        \<and> iloc weather_data ''dhi'' i =
            Some (Some (g - n * cos (zenith (get_solarposition pv (latitude (geolocation self))
                (longitude (geolocation self)) (index weather_data ! i)) * pi / 180)))
        \<and> (\<exists>h. iloc weather_data ''dhi'' i = Some (Some h)
              \<and> g = n * cos (zenith (get_solarposition pv (latitude (geolocation self))
                (longitude (geolocation self)) (index weather_data ! i)) * pi / 180) + h)"
    by (intro solar_components_row) simp_all
  show "add_solar_components_to_ghi_data pv self ghi_data = convert_to_poa pv self weather_data"
    using r by blast
  show "iloc weather_data ''dhi'' i =
            Some (Some (g - n * cos (zenith (get_solarposition pv (latitude (geolocation self))
                (longitude (geolocation self)) (index weather_data ! i)) * pi / 180)))"
    using r by blast
  show "\<exists>h. iloc weather_data ''dhi'' i = Some (Some h)
              \<and> g = n * cos (zenith (get_solarposition pv (latitude (geolocation self))
                (longitude (geolocation self)) (index weather_data ! i)) * pi / 180) + h"
    using r by blast
next
  assume o: "add_solar_components_to_ghi_data pv self ghi_data = Inr out"
  then obtain derived where d: "solar_components pv self ghi_data = Inr derived"
    and c: "convert_to_poa pv self derived = Inr out"
    by (auto simp: add_solar_components_to_ghi_data_def split: sum.splits)
  show "\<exists>derived. solar_components pv self ghi_data = Inr derived
            \<and> convert_to_poa pv self derived = Inr out"
    using d c by blast
  show "map fst (columns out) =
            [POA_GLOBAL, POA_DIRECT, POA_DIFFUSE, POA_SKY_DIFFUSE, POA_GROUND_DIFFUSE]"
    "getitem out ''ghi'' = Inl (KeyError ''ghi'')"
    "getitem out ''dni'' = Inl (KeyError ''dni'')"
    "getitem out ''dhi'' = Inl (KeyError ''dhi'')"
    using convert_to_poa_columns [OF c] by simp_all
qed

text \<open>
  The example row through \<open>add_solar_components_to_ghi_data\<close>: the stand-in for
  \<open>get_total_irradiance\<close> returns GHI, GHI - DHI, DHI, DHI and 0.
\<close>

lemma add_solar_components_example:
  "add_solar_components_to_ghi_data example_pvlib demo_weather example_ghi_table =
     Inr \<lparr>index_name = Some DATEINDEX, index_tz = Some ''UTC'', index = [720],
          columns = [(POA_GLOBAL, [Some 300]), (POA_DIRECT, [Some 100]),
                     (POA_DIFFUSE, [Some 200]), (POA_SKY_DIFFUSE, [Some 200]),
                     (POA_GROUND_DIFFUSE, [Some 0])]\<rparr>"
proof -
  have "add_solar_components_to_ghi_data example_pvlib demo_weather example_ghi_table =
          convert_to_poa example_pvlib demo_weather
            \<lparr>index_name = Some DATEINDEX, index_tz = Some ''UTC'', index = [720],
             columns = [(''dni'', [Some 200]), (''kt'', [Some (1 / 2)]), (''airmass'', [Some 2]),
                        (''ghi'', [Some 300]), (''dhi'', [Some 200])]\<rparr>"
    unfolding add_solar_components_to_ghi_data_def
    by (simp only: solar_components_example sum.case)
  also have "\<dots> = Inr \<lparr>index_name = Some DATEINDEX, index_tz = Some ''UTC'', index = [720],
          columns = [(POA_GLOBAL, [Some 300]), (POA_DIRECT, [Some 100]),
                     (POA_DIFFUSE, [Some 200]), (POA_SKY_DIFFUSE, [Some 200]),
                     (POA_GROUND_DIFFUSE, [Some 0])]\<rparr>"
    by (simp add: convert_to_poa_def getitem_def Let_def example_pvlib_def cell_sub_def)
  finally show ?thesis .
qed

text \<open>The example row, through the theorem.\<close>

theorem solar_components_closure_witness:
  "solar_components example_pvlib demo_weather example_ghi_table =
     Inr \<lparr>index_name = Some DATEINDEX, index_tz = Some ''UTC'', index = [720],
          columns = [(''dni'', [Some 200]), (''kt'', [Some (1 / 2)]), (''airmass'', [Some 2]),
                     (''ghi'', [Some 300]), (''dhi'', [Some 200])]\<rparr>
   \<and> iloc \<lparr>index_name = Some DATEINDEX, index_tz = Some ''UTC'', index = [720],
          columns = [(''dni'', [Some 200]), (''kt'', [Some (1 / 2)]), (''airmass'', [Some 2]),
                     (''ghi'', [Some 300]), (''dhi'', [Some 200])]\<rparr> ''dhi'' 0
       = Some (Some (300 - 200 * cos (60 * pi / 180)))
   \<and> (300 :: real) = 200 * cos (60 * pi / 180) + 200
   \<and> add_solar_components_to_ghi_data example_pvlib demo_weather example_ghi_table =
     Inr \<lparr>index_name = Some DATEINDEX, index_tz = Some ''UTC'', index = [720],
          columns = [(POA_GLOBAL, [Some 300]), (POA_DIRECT, [Some 100]),
                     (POA_DIFFUSE, [Some 200]), (POA_SKY_DIFFUSE, [Some 200]),
                     (POA_GROUND_DIFFUSE, [Some 0])]\<rparr>
   \<and> getitem \<lparr>index_name = Some DATEINDEX, index_tz = Some ''UTC'', index = [720],
          columns = [(POA_GLOBAL, [Some 300]), (POA_DIRECT, [Some 100]),
                     (POA_DIFFUSE, [Some 200]), (POA_SKY_DIFFUSE, [Some 200]),
                     (POA_GROUND_DIFFUSE, [Some 0])]\<rparr> ''dhi'' = Inl (KeyError ''dhi'')"
proof -
  let ?w = "\<lparr>index_name = Some DATEINDEX, index_tz = Some ''UTC'', index = [720],
          columns = [(''dni'', [Some 200]), (''kt'', [Some (1 / 2)]), (''airmass'', [Some 2]),
                     (''ghi'', [Some 300]), (''dhi'', [Some 200])]\<rparr>"
  let ?o = "\<lparr>index_name = Some DATEINDEX, index_tz = Some ''UTC'', index = [720],
          columns = [(POA_GLOBAL, [Some 300]), (POA_DIRECT, [Some 100]),
                     (POA_DIFFUSE, [Some 200]), (POA_SKY_DIFFUSE, [Some 200]),
                     (POA_GROUND_DIFFUSE, [Some 0])]\<rparr>"
  note t = solar_components_closure [where pv = example_pvlib and self = demo_weather
      and ghi_data = example_ghi_table and weather_data = ?w and i = 0 and g = 300 and n = 200
      and out = ?o]
  have h: "iloc ?w ''ghi'' 0 = Some (Some 300)" "iloc ?w ''dni'' 0 = Some (Some 200)"
    "0 < length (index ?w)"
    by (simp_all add: iloc_def)
  have z: "zenith (get_solarposition example_pvlib (latitude (geolocation demo_weather))
      (longitude (geolocation demo_weather)) (index ?w ! 0)) = 60"
    by (simp add: example_pvlib_def)
  have 1: "iloc ?w ''dhi'' 0 = Some (Some (300 - 200 * cos (60 * pi / 180)))"
    using t solar_components_example h z by simp
  have 2: "(300 :: real) = 200 * cos (60 * pi / 180) + 200"
    using t solar_components_example h z by (simp add: iloc_def)
  have 3: "getitem ?o ''dhi'' = Inl (KeyError ''dhi'')"
    using t add_solar_components_example by blast
  show ?thesis
    by (intro conjI solar_components_example add_solar_components_example 1 2 3)
qed

text \<open>
  The table returned for the example row has a row, and a look-up of \<open>dhi\<close>, \<open>ghi\<close>
  or \<open>dni\<close> in it raises \<open>KeyError\<close>: the returned table has no row in which the
  decomposition could hold.
\<close>

theorem add_solar_components_no_dhi_counterexample:
  "add_solar_components_to_ghi_data example_pvlib demo_weather example_ghi_table =
     Inr \<lparr>index_name = Some DATEINDEX, index_tz = Some ''UTC'', index = [720],
          columns = [(POA_GLOBAL, [Some 300]), (POA_DIRECT, [Some 100]),
                     (POA_DIFFUSE, [Some 200]), (POA_SKY_DIFFUSE, [Some 200]),
                     (POA_GROUND_DIFFUSE, [Some 0])]\<rparr>
   \<and> getitem \<lparr>index_name = Some DATEINDEX, index_tz = Some ''UTC'', index = [720],
          columns = [(POA_GLOBAL, [Some 300]), (POA_DIRECT, [Some 100]),
                     (POA_DIFFUSE, [Some 200]), (POA_SKY_DIFFUSE, [Some 200]),
                     (POA_GROUND_DIFFUSE, [Some 0])]\<rparr> ''dhi'' = Inl (KeyError ''dhi'')
   \<and> getitem \<lparr>index_name = Some DATEINDEX, index_tz = Some ''UTC'', index = [720],
          columns = [(POA_GLOBAL, [Some 300]), (POA_DIRECT, [Some 100]),
                     (POA_DIFFUSE, [Some 200]), (POA_SKY_DIFFUSE, [Some 200]),
                     (POA_GROUND_DIFFUSE, [Some 0])]\<rparr> ''ghi'' = Inl (KeyError ''ghi'')
   \<and> getitem \<lparr>index_name = Some DATEINDEX, index_tz = Some ''UTC'', index = [720],
          columns = [(POA_GLOBAL, [Some 300]), (POA_DIRECT, [Some 100]),
                     (POA_DIFFUSE, [Some 200]), (POA_SKY_DIFFUSE, [Some 200]),
                     (POA_GROUND_DIFFUSE, [Some 0])]\<rparr> ''dni'' = Inl (KeyError ''dni'')"
  by (simp add: add_solar_components_example getitem_def POA_GLOBAL_def POA_DIRECT_def
      POA_DIFFUSE_def POA_SKY_DIFFUSE_def POA_GROUND_DIFFUSE_def)

subsection \<open>ERA5 download and acquisition\<close>

lemma download_loop_keeps_files:
  "download_loop self y ms vars w = Inr w' \<Longrightarrow> files w p = Some x \<Longrightarrow> files w' p = Some x"
proof (induction vars arbitrary: w)
  case Nil
  then show ?case by simp
next
  case (Cons v vars)
  let ?t = "full_path self v y"
  show ?case
  proof (cases "files w ?t = None")
    case True
    then obtain c d where c: "api_client self = Some c"
      and d: "c ''reanalysis-era5-land'' (download_request self v y ms) = Inr d"
      and r: "download_loop self y ms vars
            \<lparr>files = (files w)(?t \<mapsto> d),
             retrieved = retrieved w @ [(''reanalysis-era5-land'', download_request self v y ms, ?t)]\<rparr>
          = Inr w'"
      using Cons.prems(1) by (auto simp: Let_def split: option.splits sum.splits)
    have "p \<noteq> ?t" using True Cons.prems(2) by auto
    then show ?thesis using Cons.IH [OF r] Cons.prems(2) by simp
  next
    case False
    then obtain z where "files w ?t = Some z" by auto
    then have "download_loop self y ms vars w = Inr w'"
      using Cons.prems(1) by (simp add: Let_def)
    then show ?thesis using Cons.IH Cons.prems(2) by blast
  qed
qed

lemma download_loop_files_exist:
  "download_loop self y ms vars w = Inr w' \<Longrightarrow> v \<in> set vars \<Longrightarrow>
   files w' (full_path self v y) \<noteq> None"
proof (induction vars arbitrary: w)
  case Nil
  then show ?case by simp
next
  case (Cons u vars)
  let ?t = "full_path self u y"
  show ?case
  proof (cases "files w ?t = None")
    case True
    then obtain c d where c: "api_client self = Some c"
      and d: "c ''reanalysis-era5-land'' (download_request self u y ms) = Inr d"
      and r: "download_loop self y ms vars
            \<lparr>files = (files w)(?t \<mapsto> d),
             retrieved = retrieved w @ [(''reanalysis-era5-land'', download_request self u y ms, ?t)]\<rparr>
          = Inr w'"
      using Cons.prems(1) by (auto simp: Let_def split: option.splits sum.splits)
    show ?thesis
    proof (cases "v = u")
      case True
      have "files w' ?t = Some d"
        using download_loop_keeps_files [OF r, of ?t d] by simp
      then show ?thesis using True by simp
    next
      case False
      then have "v \<in> set vars" using Cons.prems(2) by simp
      then show ?thesis using Cons.IH [OF r] by blast
    qed
  next
    case False
    then obtain z where z: "files w ?t = Some z" by auto
    then have r: "download_loop self y ms vars w = Inr w'"
      using Cons.prems(1) by (simp add: Let_def)
    show ?thesis
    proof (cases "v = u")
      case True
      have "files w' ?t = Some z" using download_loop_keeps_files [OF r z] .
      then show ?thesis using True by simp
    next
      case False
      then have "v \<in> set vars" using Cons.prems(2) by simp
      then show ?thesis using Cons.IH [OF r] by blast
    qed
  qed
qed

lemma download_loop_skips:
  "(\<And>v. v \<in> set vars \<Longrightarrow> files w (full_path self v y) \<noteq> None)
   \<Longrightarrow> download_loop self y ms vars w = Inr w"
proof (induction vars)
  case Nil
  then show ?case by simp
next
  case (Cons u vars)
  obtain z where "files w (full_path self u y) = Some z"
    using Cons.prems [of u] by auto
  then show ?case using Cons by (simp add: Let_def)
qed

lemma download_loop_calls:
  "download_loop self y ms vars w = Inr w' \<Longrightarrow>
   retrieve_calls w' p = retrieve_calls w p +
     (if (\<exists>v \<in> set vars. full_path self v y = p)
         \<and> files w p = None then 1 else 0)"
proof (induction vars arbitrary: w)
  case Nil
  then show ?case by simp
next
  case (Cons u vars)
  let ?t = "full_path self u y"
  show ?case
  proof (cases "files w ?t = None")
    case True
    then obtain c d where c: "api_client self = Some c"
      and d: "c ''reanalysis-era5-land'' (download_request self u y ms) = Inr d"
      and r: "download_loop self y ms vars
            \<lparr>files = (files w)(?t \<mapsto> d),
             retrieved = retrieved w @ [(''reanalysis-era5-land'', download_request self u y ms, ?t)]\<rparr>
          = Inr w'"
      using Cons.prems(1) by (auto simp: Let_def split: option.splits sum.splits)
    show ?thesis
      using Cons.IH [OF r] True by (auto simp: retrieve_calls_def)
  next
    case False
    then obtain z where z: "files w ?t = Some z" by auto
    then have r: "download_loop self y ms vars w = Inr w'"
      using Cons.prems(1) by (simp add: Let_def)
    show ?thesis
      using Cons.IH [OF r] z by auto
  qed
qed

text \<open>
  C9. When \<open>download_data\<close> has returned, a second invocation for the same year (with
  any months) makes no \<open>retrieve\<close> call and leaves the files and the log as they are;
  and for a variable whose file was absent before the first invocation, the file is there
  afterwards and the two invocations together have made exactly one \<open>retrieve\<close> call
  for it.
\<close>

theorem download_data_idempotent:
  assumes "download_data self year' months w = Inr w1"
    and "variable \<in> set (variables_to_extract self)"
    and "files w (full_path self variable year') = None"
  shows "download_data self year' months' w1 = Inr w1
     \<and> files w1 (full_path self variable year') \<noteq> None
     \<and> retrieve_calls w1 (full_path self variable year') =
         retrieve_calls w (full_path self variable year') + 1"
proof -
  let ?ms = "case months of None \<Rightarrow> all_monhts | Some ms \<Rightarrow> ms"
  have l: "download_loop self year' ?ms (variables_to_extract self) w = Inr w1"
    using assms(1) by (simp add: download_data_def)
  have e: "files w1 (full_path self v year') \<noteq> None"
    if "v \<in> set (variables_to_extract self)" for v
    using download_loop_files_exist [OF l that] .
  have s: "download_data self year' months' w1 = Inr w1"
    unfolding download_data_def by (rule download_loop_skips) (rule e)
  have c: "retrieve_calls w1 (full_path self variable year') =
         retrieve_calls w (full_path self variable year') + 1"
    using download_loop_calls [OF l, of "full_path self variable year'"]
      assms(2,3) by auto
  show ?thesis using s e [OF assms(2)] c by simp
qed

lemma values_flatten_single:
  assumes "columns t = [(c, vs)]" and "well_formed t"
  shows "values_flatten t = vs"
proof -
  have n: "length vs = length (index t)"
    using assms by (simp add: well_formed_def)
  have "values_flatten t = concat (map (\<lambda>i. [vs ! i]) [0..<length vs])"
    using assms(1) n by (simp add: values_flatten_def)
  also have "\<dots> = map (\<lambda>i. vs ! i) [0..<length vs]"
    by (induction "[0..<length vs]") (simp_all add: concat_map_singleton)
  also have "\<dots> = vs"
    by (rule map_nth)
  finally show ?thesis .
qed

lemma get_temperature_data_columns:
  assumes "get_temperature_data fs p = Inr t"
  shows "\<exists>vs. columns t = [(OAT, vs)]"
proof -
  have a: "\<exists>vs. columns t = [(OAT, vs)]" if "apply_outputdataschema d TEMPERATURE = Inr t" for d
  proof -
    have "length (columns d) = 1"
      using that by (simp add: apply_outputdataschema_def set_columns_def split: if_splits)
    then obtain c vs where "columns d = [(c, vs)]"
      by (cases "columns d") auto
    then show ?thesis
      using that by (auto simp: apply_outputdataschema_def set_columns_def)
  qed
  show ?thesis
    using assms a
    by (auto simp: get_temperature_data_def Let_def split: if_splits sum.splits)
qed

lemma convert_to_poa_no_temperature:
  assumes "convert_to_poa pv self d = Inr out"
  shows "index out = index d \<and> map_of (columns out) OUTDOOR_AIR_TEMPERATURE = None
       \<and> well_formed out"
  using assms
  by (auto simp: convert_to_poa_def Let_def well_formed_def POA_GLOBAL_def POA_DIRECT_def
      POA_DIFFUSE_def POA_SKY_DIFFUSE_def POA_GROUND_DIFFUSE_def OUTDOOR_AIR_TEMPERATURE_def
      split: sum.splits)

lemma era5_tables_shape:
  assumes "era5_tables env pv self w = Inr (weather_data, temperature_data, w')"
  shows "map_of (columns weather_data) OUTDOOR_AIR_TEMPERATURE = None
       \<and> (\<exists>vs. columns temperature_data = [(OAT, vs)])"
proof -
  from assms obtain ghi p where
    a: "add_solar_components_to_ghi_data pv self ghi = Inr weather_data"
    and t: "get_temperature_data (files w') p = Inr temperature_data"
    by (auto simp: era5_tables_def Let_def extractor_get_temperature_data_def
        split: sum.splits)
  from a obtain d where "convert_to_poa pv self d = Inr weather_data"
    by (auto simp: add_solar_components_to_ghi_data_def split: sum.splits)
  then show ?thesis
    using convert_to_poa_no_temperature get_temperature_data_columns [OF t] by blast
qed

lemma map_of_append_new: "map_of cols c = None \<Longrightarrow> replace_column c vs cols = cols @ [(c, vs)]"
  by (induction cols) (auto split: if_splits)

text \<open>
  C7 (as amended). With \<open>weather_data\<close> the radiation-derived table and
  \<open>temperature_data\<close> the temperature table that \<open>get_weather_data_from_era5\<close> reads:
  the temperature cells are attached in row order, whatever the two indexes are. When
  the tables have the same number of rows the function returns \<open>weather_data\<close> with the
  new column; when the numbers differ and \<open>weather_data\<close> has rows it raises
  \<open>ValueError\<close>; when \<open>weather_data\<close> has no rows and \<open>temperature_data\<close> has some,
  it returns a table on the fresh integer index \<open>0, 1, ...\<close> whose other columns are
  missing.
\<close>

theorem era5_temperature_by_position:
  assumes "era5_tables env pv self w = Inr (weather_data, temperature_data, w')"
    and "well_formed temperature_data"
  shows "(length (index temperature_data) = length (index weather_data) \<longrightarrow>
            get_weather_data_from_era5 env pv self w =
              Inr (weather_data\<lparr>columns := columns weather_data @
                     [(OUTDOOR_AIR_TEMPERATURE, values_flatten temperature_data)]\<rparr>, w'))
       \<and> (length (index temperature_data) \<noteq> length (index weather_data)
            \<and> index weather_data \<noteq> [] \<longrightarrow>
            get_weather_data_from_era5 env pv self w = Inl ValueError)
       \<and> (index weather_data = [] \<and> index temperature_data \<noteq> [] \<longrightarrow>
            get_weather_data_from_era5 env pv self w =
              Inr (\<lparr>index_name = index_name weather_data, index_tz = None,
                    index = map int [0..<length (index temperature_data)],
                    columns =
                      map (\<lambda>(d, ws). (d, replicate (length (index temperature_data)) None))
                        (columns weather_data)
                      @ [(OUTDOOR_AIR_TEMPERATURE, values_flatten temperature_data)]\<rparr>, w'))
       \<and> (\<forall>i < length (index temperature_data).
            Some (values_flatten temperature_data ! i) = iloc temperature_data OAT i)"
proof -
  from era5_tables_shape [OF assms(1)] obtain vs where
    n: "map_of (columns weather_data) OUTDOOR_AIR_TEMPERATURE = None"
    and c: "columns temperature_data = [(OAT, vs)]"
    by blast
  have f: "values_flatten temperature_data = vs"
    using c assms(2) by (rule values_flatten_single)
  have l: "length vs = length (index temperature_data)"
    using c assms(2) by (simp add: well_formed_def)
  have i: "\<forall>i < length (index temperature_data).
            Some (values_flatten temperature_data ! i) = iloc temperature_data OAT i"
    using c l f by (simp add: iloc_def)
  have e: "vs = [] \<longleftrightarrow> index temperature_data = []"
    using l by auto
  show ?thesis
    using assms(1) n f l i e
    by (auto simp: get_weather_data_from_era5_def loc_setitem_column_def setitem_def
        map_of_append_new)
qed

lemma str_int_2020: "str_int 2020 = ''2020''"
  by (simp add: str_int_def str_nat.simps)

lemma full_path_demo:
  "full_path (new_Era5DataExtractor c get_demo_location None ''data'') (filename_key v) 2020
     = demo_path v"
  by (simp add: full_path_def new_Era5DataExtractor_def create_saving_path_def
      netcdf_filename_def get_demo_location_def demo_path_def str_int_2020)

lemma demo_path_neq: "demo_path SOLARRADIATION \<noteq> demo_path TEMPERATURE"
  by (simp add: demo_path_def)

lemma download_data_demo_present:
  "download_data (new_Era5DataExtractor c get_demo_location None ''data'') 2020 None
     (demo_world r t) = Inr (demo_world r t)"
proof -
  have v: "variables_to_extract (new_Era5DataExtractor c get_demo_location None ''data'') =
      [filename_key SOLARRADIATION, filename_key TEMPERATURE]"
    by (simp add: new_Era5DataExtractor_def create_saving_path_def)
  show ?thesis
    using demo_path_neq
    by (simp add: download_data_def v full_path_demo Let_def demo_world_def
        del: filename_key.simps)
qed

lemma get_ghi_data_demo_one:
  "get_radiation_data (files (demo_world example_one_radiation_file t)) (demo_path SOLARRADIATION)
     = Inr \<lparr>index_name = Some DATEINDEX, index_tz = Some ''UTC'', index = [0],
            columns = [(SOLARIRRADIANCE, [Some 0])]\<rparr>"
  using demo_path_neq
  by (simp add: get_radiation_data_def demo_world_def load_single_netcdf_file_def
      example_one_radiation_file_def Let_def shift_def sub_frames_def fillna_def
      clip_negative_def getitem_def setitem_def apply_outputdataschema_def set_columns_def
      div_scalar_def shift_column_def cell_sub_def)

lemma get_ghi_data_demo_none:
  "get_radiation_data (files (demo_world example_no_radiation_file t)) (demo_path SOLARRADIATION)
     = Inr \<lparr>index_name = Some DATEINDEX, index_tz = Some ''UTC'', index = [],
            columns = [(SOLARIRRADIANCE, [])]\<rparr>"
  using demo_path_neq
  by (simp add: get_radiation_data_def demo_world_def load_single_netcdf_file_def
      example_no_radiation_file_def Let_def shift_def sub_frames_def fillna_def
      clip_negative_def getitem_def setitem_def apply_outputdataschema_def set_columns_def
      div_scalar_def shift_column_def cell_sub_def)

lemma add_solar_demo_one:
  "add_solar_components_to_ghi_data example_pvlib demo_weather
     \<lparr>index_name = Some DATEINDEX, index_tz = Some ''UTC'', index = [0],
      columns = [(SOLARIRRADIANCE, [Some 0])]\<rparr>
   = Inr (example_weather_table [0] [Some 0])"
  by (simp add: add_solar_components_to_ghi_data_def solar_components_def convert_to_poa_def
      example_pvlib_def set_columns_def getitem_def setitem_def Let_def cell_sub_def
      cell_mul_def example_weather_table_def)

lemma add_solar_demo_none:
  "add_solar_components_to_ghi_data example_pvlib demo_weather
     \<lparr>index_name = Some DATEINDEX, index_tz = Some ''UTC'', index = [],
      columns = [(SOLARIRRADIANCE, [])]\<rparr>
   = Inr (example_weather_table [] [])"
  by (simp add: add_solar_components_to_ghi_data_def solar_components_def convert_to_poa_def
      example_pvlib_def set_columns_def getitem_def setitem_def Let_def cell_sub_def
      cell_mul_def example_weather_table_def)

lemma get_temperature_demo_one:
  "get_temperature_data (files (demo_world r example_one_temperature_file)) (demo_path TEMPERATURE)
     = Inr (example_temperature_table [0] [Some 10])"
  by (simp add: get_temperature_data_def demo_world_def load_single_netcdf_file_def
      example_one_temperature_file_def Let_def getitem_def setitem_def
      apply_outputdataschema_def set_columns_def sub_scalar_def example_temperature_table_def)

lemma get_temperature_demo_two:
  "get_temperature_data (files (demo_world r example_two_temperature_file)) (demo_path TEMPERATURE)
     = Inr (example_temperature_table [0, 60] [Some 0, Some 10])"
  by (simp add: get_temperature_data_def demo_world_def load_single_netcdf_file_def
      example_two_temperature_file_def Let_def getitem_def setitem_def
      apply_outputdataschema_def set_columns_def sub_scalar_def example_temperature_table_def)

lemma demo_weather_fields:
  "geolocation demo_weather = get_demo_location" "saving_path demo_weather = ''data''"
  "simulation_year demo_weather = 2020"
  by (simp_all add: demo_weather_def)

lemma era5_tables_demo_equal:
  "era5_tables None example_pvlib demo_weather
     (demo_world example_one_radiation_file example_one_temperature_file)
   = Inr (example_weather_table [0] [Some 0], example_temperature_table [0] [Some 10],
          demo_world example_one_radiation_file example_one_temperature_file)"
  by (simp add: era5_tables_def demo_weather_fields download_data_demo_present Let_def
      get_ghi_data_def extractor_get_temperature_data_def get_variable_file_path_def
      full_path_demo get_ghi_data_demo_one add_solar_demo_one get_temperature_demo_one
      del: filename_key.simps)

lemma era5_tables_demo_mismatch:
  "era5_tables None example_pvlib demo_weather
     (demo_world example_one_radiation_file example_two_temperature_file)
   = Inr (example_weather_table [0] [Some 0], example_temperature_table [0, 60] [Some 0, Some 10],
          demo_world example_one_radiation_file example_two_temperature_file)"
  by (simp add: era5_tables_def demo_weather_fields download_data_demo_present Let_def
      get_ghi_data_def extractor_get_temperature_data_def get_variable_file_path_def
      full_path_demo get_ghi_data_demo_one add_solar_demo_one get_temperature_demo_two
      del: filename_key.simps)

lemma era5_tables_demo_empty:
  "era5_tables None example_pvlib demo_weather
     (demo_world example_no_radiation_file example_two_temperature_file)
   = Inr (example_weather_table [] [], example_temperature_table [0, 60] [Some 0, Some 10],
          demo_world example_no_radiation_file example_two_temperature_file)"
  by (simp add: era5_tables_def demo_weather_fields download_data_demo_present Let_def
      get_ghi_data_def extractor_get_temperature_data_def get_variable_file_path_def
      full_path_demo get_ghi_data_demo_none add_solar_demo_none get_temperature_demo_two
      del: filename_key.simps)

lemma well_formed_example_temperature_table:
  "length ts = length vs \<Longrightarrow> well_formed (example_temperature_table ts vs)"
  by (simp add: well_formed_def example_temperature_table_def)

lemma values_flatten_example:
  "values_flatten (example_temperature_table [0, 60] [Some 0, Some 10]) = [Some 0, Some 10]"
  "values_flatten (example_temperature_table [0] [Some 10]) = [Some 10]"
  by (simp_all add: values_flatten_def example_temperature_table_def upt_rec [of 0] upt_rec [of 1]
      numeral_2_eq_2)

text \<open>
  One radiation row with one temperature row gives a table; one radiation row with two
  temperature rows raises.
\<close>

theorem era5_temperature_by_position_witness:
  "era5_tables None example_pvlib demo_weather
     (demo_world example_one_radiation_file example_one_temperature_file)
   = Inr (example_weather_table [0] [Some 0], example_temperature_table [0] [Some 10],
          demo_world example_one_radiation_file example_one_temperature_file)
   \<and> get_weather_data_from_era5 None example_pvlib demo_weather
       (demo_world example_one_radiation_file example_one_temperature_file)
     = Inr ((example_weather_table [0] [Some 0])
              \<lparr>columns := columns (example_weather_table [0] [Some 0])
                  @ [(OUTDOOR_AIR_TEMPERATURE, [Some 10])]\<rparr>,
            demo_world example_one_radiation_file example_one_temperature_file)
   \<and> era5_tables None example_pvlib demo_weather
       (demo_world example_one_radiation_file example_two_temperature_file)
     = Inr (example_weather_table [0] [Some 0], example_temperature_table [0, 60] [Some 0, Some 10],
            demo_world example_one_radiation_file example_two_temperature_file)
   \<and> get_weather_data_from_era5 None example_pvlib demo_weather
       (demo_world example_one_radiation_file example_two_temperature_file)
     = Inl ValueError"
  using era5_temperature_by_position [OF era5_tables_demo_equal well_formed_example_temperature_table]
    era5_temperature_by_position [OF era5_tables_demo_mismatch well_formed_example_temperature_table]
    era5_tables_demo_equal era5_tables_demo_mismatch
  by (simp add: values_flatten_example values_flatten_example [unfolded example_temperature_table_def]
      example_weather_table_def example_temperature_table_def)

text \<open>
  C7 as stated says that a table is returned only when the row counts are equal. With a
  radiation file of no rows and a temperature file of two rows the counts are 0 and 2,
  and a table of two rows is returned.
\<close>

theorem era5_empty_radiation_counterexample:
  "era5_tables None example_pvlib demo_weather
     (demo_world example_no_radiation_file example_two_temperature_file)
   = Inr (example_weather_table [] [], example_temperature_table [0, 60] [Some 0, Some 10],
          demo_world example_no_radiation_file example_two_temperature_file)
   \<and> length (index (example_weather_table [] [])) = 0
   \<and> length (index (example_temperature_table [0, 60] [Some 0, Some 10])) = 2
   \<and> get_weather_data_from_era5 None example_pvlib demo_weather
       (demo_world example_no_radiation_file example_two_temperature_file)
     = Inr (\<lparr>index_name = Some DATEINDEX, index_tz = None, index = [0, 1],
             columns = [(POA_GLOBAL, [None, None]), (POA_DIRECT, [None, None]),
                        (POA_DIFFUSE, [None, None]), (POA_SKY_DIFFUSE, [None, None]),
                        (POA_GROUND_DIFFUSE, [None, None]),
                        (OUTDOOR_AIR_TEMPERATURE, [Some 0, Some 10])]\<rparr>,
            demo_world example_no_radiation_file example_two_temperature_file)"
  by (simp add: era5_tables_demo_empty get_weather_data_from_era5_def loc_setitem_column_def
      values_flatten_example values_flatten_example [unfolded example_temperature_table_def]
      example_weather_table_def example_temperature_table_def
      POA_GLOBAL_def POA_DIRECT_def POA_DIFFUSE_def POA_SKY_DIFFUSE_def POA_GROUND_DIFFUSE_def
      OUTDOOR_AIR_TEMPERATURE_def upt_rec [of 0] upt_rec [of 1] numeral_2_eq_2)

lemma demo_extractor_fields:
  "variables_to_extract demo_extractor = [filename_key SOLARRADIATION, filename_key TEMPERATURE]"
  "api_client demo_extractor = Some example_client"
  by (simp_all add: demo_extractor_def new_Era5DataExtractor_def create_saving_path_def)

lemma full_path_demo_extractor: "full_path demo_extractor (filename_key v) 2020 = demo_path v"
  by (simp add: demo_extractor_def full_path_demo)

lemma example_client_request:
  "example_client ds (download_request self (filename_key SOLARRADIATION) y ms)
     = Inr example_one_radiation_file"
  "example_client ds (download_request self (filename_key TEMPERATURE) y ms)
     = Inr example_one_temperature_file"
  by (simp_all add: example_client_def download_request_def)

lemma download_data_demo_first:
  "download_data demo_extractor 2020 None empty_world = Inr downloaded_world"
  using demo_path_neq
  by (simp add: download_data_def demo_extractor_fields full_path_demo_extractor Let_def
      empty_world_def downloaded_world_def example_client_request
      del: filename_key.simps)

text \<open>
  The demo site on an empty disk: the first invocation downloads the two variables of
  the extractor, one call each, and the second changes nothing.
\<close>

theorem download_data_idempotent_witness:
  "download_data demo_extractor 2020 None empty_world = Inr downloaded_world
   \<and> filename_key TEMPERATURE \<in> set (variables_to_extract demo_extractor)
   \<and> files empty_world (full_path demo_extractor (filename_key TEMPERATURE) 2020) = None
   \<and> download_data demo_extractor 2020 None downloaded_world = Inr downloaded_world
   \<and> retrieve_calls downloaded_world (full_path demo_extractor (filename_key TEMPERATURE) 2020) = 1
   \<and> length (retrieved downloaded_world) = 2"
proof -
  have v: "filename_key TEMPERATURE \<in> set (variables_to_extract demo_extractor)"
    by (simp add: demo_extractor_fields del: filename_key.simps)
  have f: "files empty_world (full_path demo_extractor (filename_key TEMPERATURE) 2020) = None"
    by (simp add: empty_world_def)
  have c: "retrieve_calls empty_world p = 0" for p
    by (simp add: retrieve_calls_def empty_world_def)
  have n: "length (retrieved downloaded_world) = 2"
    by (simp add: downloaded_world_def)
  show ?thesis
    using download_data_idempotent [OF download_data_demo_first v f, of None] download_data_demo_first v f c n
    by simp
qed

subsection \<open>Calendar normaliser\<close>
















subsection \<open>Source selector\<close>







end
